theory Spec2Isabelle
  imports Main "HOL-Library.Word" "HOL-Library.Sublist"
begin

section \<open>Python values\<close>

text \<open>
  \<^verbatim>\<open>bytes\<close> are lists of 8-bit words. A Python \<^verbatim>\<open>str\<close> is a list of characters; every
  literal of \<^verbatim>\<open>NetworkManager.py\<close> is ASCII apart from the copyright sign, which is the single
  character \<open>CHR 0xA9\<close>. Exceptions are values; \<open>msg\<close> is what \<^verbatim>\<open>{e}\<close> formats.
\<close>

type_synonym byte = "8 word"
type_synonym bytes = "byte list"

datatype exn =
    OSError (errno: int) (msg: string)
  | IndexError (msg: string)
  | TypeError (msg: string)
  | UnicodeError (msg: string)
  | ValueError (msg: string)

section \<open>NetworkManagerDNS: the query handler\<close>

text \<open>
  \<^verbatim>\<open>'.'.join(domain_parts)\<close>.
\<close>

fun join :: "string \<Rightarrow> string list \<Rightarrow> string" where
  "join sep [] = []"
| "join sep [p] = p"
| "join sep (p # q # ps) = p @ sep @ join sep (q # ps)"

text \<open>
  The loop of \<^verbatim>\<open>_decode_domain_name\<close>, with \<open>i\<close> and \<open>domain_parts\<close> as arguments.
  \<^verbatim>\<open>query_section[i]\<close> raises IndexError past the end; the slice \<^verbatim>\<open>query_section[i:i+length]\<close>
  never raises and is cut at the end of the buffer. \<open>dec\<close> is \<^verbatim>\<open>bytes.decode()\<close> of the
  runtime: \<open>Inl\<close> is the exception it raises on bytes it rejects.
\<close>

function decode_labels ::
  "(bytes \<Rightarrow> exn + string) \<Rightarrow> bytes \<Rightarrow> nat \<Rightarrow> string list \<Rightarrow> exn + string list" where
  "decode_labels dec query_section i domain_parts =
     (if length query_section \<le> i then Inl (IndexError ''bytes index out of range'')
      else if query_section ! i = 0 then Inr domain_parts
      else
        (let len = unat (query_section ! i);
             i1 = i + 1
         in case dec (take len (drop i1 query_section)) of
              Inl e \<Rightarrow> Inl e
            | Inr label \<Rightarrow> decode_labels dec query_section (i1 + len) (domain_parts @ [label])))"
  by pat_completeness auto
termination
  by (relation "measure (\<lambda>(dec, query_section, i, domain_parts). length query_section - i)") auto

declare decode_labels.simps [simp del]

definition decode_domain_name :: "(bytes \<Rightarrow> exn + string) \<Rightarrow> bytes \<Rightarrow> exn + string" where
  "decode_domain_name dec query_section =
     (case decode_labels dec query_section 0 [] of
        Inl e \<Rightarrow> Inl e
      | Inr domain_parts \<Rightarrow> Inr (join ''.'' domain_parts))"

text \<open>
  \<^verbatim>\<open>handle_dns_query\<close>. The result is the lines printed and the bytes returned.
  \<open>inet_aton\<close> is \<^verbatim>\<open>socket.inet_aton\<close> of the runtime and \<open>dns_ip\<close> the field
  \<^verbatim>\<open>self.dns_ip\<close>. The slices \<^verbatim>\<open>data[:2]\<close>, \<^verbatim>\<open>data[4:6]\<close> and \<^verbatim>\<open>data[12:]\<close> never raise.
\<close>

definition handle_dns_query ::
  "(bytes \<Rightarrow> exn + string) \<Rightarrow> (string \<Rightarrow> exn + bytes) \<Rightarrow> string \<Rightarrow> bytes \<Rightarrow> string list \<times> bytes" where
  "handle_dns_query dec inet_aton dns_ip data =
     (let transaction_id = take 2 data;
          flags = [0x81, 0x80];
          question_count = take 2 (drop 4 data);
          answer_count = [0x00, 0x01];
          authority_rrs = [0x00, 0x00];
          additional_rrs = [0x00, 0x00];
          query_section = drop 12 data
      in case decode_domain_name dec query_section of
           Inl e \<Rightarrow> ([''Error handling DNS query: '' @ msg e], [])
         | Inr domain_name \<Rightarrow>
             (let line = ''Handling DNS query for domain: '' @ domain_name;
                  answer_name = [0xc0, 0x0c];
                  answer_type = [0x00, 0x01];
                  answer_class = [0x00, 0x01];
                  ttl = [0x00, 0x00, 0x00, 0x3c];
                  data_length = [0x00, 0x04]
              in case inet_aton dns_ip of
                   Inl e \<Rightarrow> ([line, ''Error handling DNS query: '' @ msg e], [])
                 | Inr answer_ip \<Rightarrow>
                     ([line],
                      transaction_id @ flags @ question_count @ answer_count @
                      authority_rrs @ additional_rrs @ query_section @
                      answer_name @ answer_type @ answer_class @ ttl @
                      data_length @ answer_ip)))"

section \<open>NetworkManagerDNS: the socket wrappers\<close>

text \<open>
  The non-blocking socket is an oracle: \<open>sock k\<close> is what the \<open>k\<close>-th call of
  \<^verbatim>\<open>recvfrom\<close> (or \<^verbatim>\<open>sendto\<close>) does. Both wrappers are \<^verbatim>\<open>while True\<close> loops, so they take
  fuel, one unit per iteration; \<open>None\<close> is a loop that is still retrying when the fuel is
  spent. A result carries the number of \<^verbatim>\<open>await asyncio.sleep(0)\<close> executed before it.
\<close>

datatype 'a sock_result = SockOk 'a | SockRaise exn

datatype 'a outcome = Returned 'a nat | Raised exn nat

fun would_block :: "'a sock_result \<Rightarrow> bool" where
  "would_block (SockRaise (OSError n t)) = (n = 11)"
| "would_block _ = False"

fun receive_from :: "(nat \<Rightarrow> 'a sock_result) \<Rightarrow> nat \<Rightarrow> nat \<Rightarrow> 'a outcome option" where
  "receive_from sock 0 k = None"
| "receive_from sock (Suc fuel) k =
     (case sock k of
        SockOk data_addr \<Rightarrow> Some (Returned data_addr k)
      | SockRaise (OSError n t) \<Rightarrow>
          (if n \<noteq> 11 then Some (Raised (OSError n t) k)
           else receive_from sock fuel (Suc k))
      | SockRaise e \<Rightarrow> Some (Raised e k))"

fun send_to :: "(nat \<Rightarrow> unit sock_result) \<Rightarrow> nat \<Rightarrow> nat \<Rightarrow> unit outcome option" where
  "send_to sock 0 k = None"
| "send_to sock (Suc fuel) k =
     (case sock k of
        SockOk u \<Rightarrow> Some (Returned () k)
      | SockRaise (OSError n t) \<Rightarrow>
          (if n \<noteq> 11 then Some (Raised (OSError n t) k)
           else send_to sock fuel (Suc k))
      | SockRaise e \<Rightarrow> Some (Raised e k))"

section \<open>Python strings\<close>

abbreviation NL :: string where "NL \<equiv> [CHR 0x0A]"
abbreviation CR :: string where "CR \<equiv> [CHR 0x0D]"
abbreviation SQ :: string where "SQ \<equiv> [CHR 0x27]"
abbreviation DQ :: string where "DQ \<equiv> [CHR 0x22]"

text \<open>\<^verbatim>\<open>sub in s\<close> on strings.\<close>

fun contains :: "string \<Rightarrow> string \<Rightarrow> bool" where
  "contains sub [] = (sub = [])"
| "contains sub (c # cs) = (prefix sub (c # cs) \<or> contains sub cs)"

text \<open>\<^verbatim>\<open>s.find(sub)\<close>: the index of the first occurrence, \<open>-1\<close> when there is none.\<close>

fun find_from :: "string \<Rightarrow> string \<Rightarrow> nat \<Rightarrow> int" where
  "find_from sub [] k = (if sub = [] then int k else - 1)"
| "find_from sub (c # cs) k = (if prefix sub (c # cs) then int k else find_from sub cs (Suc k))"

definition str_find :: "string \<Rightarrow> string \<Rightarrow> int" where
  "str_find sub s = find_from sub s 0"

text \<open>\<^verbatim>\<open>s.split(sep)\<close> for a separator of one character: empty fields are kept.\<close>

fun str_split :: "char \<Rightarrow> string \<Rightarrow> string list" where
  "str_split sep [] = [[]]"
| "str_split sep (c # cs) =
     (if c = sep then [] # str_split sep cs
      else (case str_split sep cs of
              p # ps \<Rightarrow> (c # p) # ps
            | [] \<Rightarrow> [[c]]))"

text \<open>\<^verbatim>\<open>kv.split(sep, 1)\<close> for a \<open>kv\<close> that contains \<open>sep\<close>: the two parts around its
  first occurrence.\<close>

definition split_once :: "char \<Rightarrow> string \<Rightarrow> string \<times> string" where
  "split_once sep kv = (takeWhile (\<lambda>c. c \<noteq> sep) kv, drop 1 (dropWhile (\<lambda>c. c \<noteq> sep) kv))"

text \<open>\<^verbatim>\<open>s.replace(old, new)\<close>: occurrences are replaced from the left and do not overlap.
  The source calls it with a non-empty \<open>old\<close> only; an empty \<open>old\<close> leaves \<open>s\<close> as it is
  here.\<close>

function str_replace :: "string \<Rightarrow> string \<Rightarrow> string \<Rightarrow> string" where
  "str_replace old new [] = []"
| "str_replace old new (c # cs) =
     (if old \<noteq> [] \<and> prefix old (c # cs)
      then new @ str_replace old new (drop (length old) (c # cs))
      else c # str_replace old new cs)"
  by pat_completeness auto
termination
  by (relation "measure (\<lambda>(old, new, s). length s)") auto

text \<open>\<^verbatim>\<open>{n}\<close> in an f-string, for an integer.\<close>

definition digit :: "nat \<Rightarrow> char" where
  "digit d = char_of (48 + d)"

function show_nat :: "nat \<Rightarrow> string" where
  "show_nat n = (if n < 10 then [digit n] else show_nat (n div 10) @ [digit (n mod 10)])"
  by pat_completeness auto
termination
  by (relation "measure id") auto

declare show_nat.simps [simp del]

definition show_int :: "int \<Rightarrow> string" where
  "show_int i = (if i < 0 then CHR ''-'' # show_nat (nat (- i)) else show_nat (nat i))"

text \<open>\<^verbatim>\<open>{x}\<close> for a value that is a string or \<^verbatim>\<open>None\<close>.\<close>

definition show_opt :: "string option \<Rightarrow> string" where
  "show_opt x = (case x of None \<Rightarrow> ''None'' | Some s \<Rightarrow> s)"

text \<open>\<^verbatim>\<open>s.encode()\<close>: UTF-8, for characters up to U+00FF.\<close>

definition encode_char :: "char \<Rightarrow> bytes" where
  "encode_char c =
     (let n = (of_char c :: nat)
      in if n < 128 then [of_nat n] else [of_nat (192 + n div 64), of_nat (128 + n mod 64)])"

definition encode :: "string \<Rightarrow> bytes" where
  "encode s = concat (map encode_char s)"

section \<open>Form decoding\<close>

text \<open>
  The first statements of \<^verbatim>\<open>connect_to_wifi\<close>. \<^verbatim>\<open>request.find\<close> gives \<open>-1\<close> when the
  request has no blank line, so \<open>body_start\<close> is at least 3 and the slice
  \<^verbatim>\<open>request[body_start:]\<close> drops that many characters. \<open>parse_pairs\<close> is the \<^verbatim>\<open>for\<close> loop
  with the dictionary \<open>params\<close> as accumulator.
\<close>

definition decode_value :: "string \<Rightarrow> string" where
  "decode_value v = str_replace ''%20'' '' '' (str_replace ''+'' '' '' v)"

fun parse_pairs :: "string list \<Rightarrow> (string \<rightharpoonup> string) \<Rightarrow> (string \<rightharpoonup> string)" where
  "parse_pairs [] params = params"
| "parse_pairs (kv # kvs) params =
     (if CHR ''='' \<in> set kv
      then (let (key, v) = split_once CHR ''='' kv
            in parse_pairs kvs (params(key \<mapsto> decode_value v)))
      else parse_pairs kvs params)"

definition form_body :: "string \<Rightarrow> string" where
  "form_body request =
     (let body_start = str_find (CR @ NL @ CR @ NL) request + 4
      in drop (nat body_start) request)"

definition form_params :: "string \<Rightarrow> (string \<rightharpoonup> string)" where
  "form_params request = parse_pairs (str_split CHR ''&'' (form_body request)) Map.empty"

text \<open>\<^verbatim>\<open>params.get(key, "")\<close>.\<close>

definition params_get :: "(string \<rightharpoonup> string) \<Rightarrow> string \<Rightarrow> string" where
  "params_get params key = (case params key of None \<Rightarrow> [] | Some v \<Rightarrow> v)"

section \<open>The manager, the device and the outside world\<close>

text \<open>
  The attributes that \<^verbatim>\<open>__init__\<close> sets and no method assigns afterwards, those of the
  \<^verbatim>\<open>NetworkManagerDNS\<close> object it builds included. \<open>sta_web_server\<close> says whether an
  application server was passed.
\<close>

record settings =
  config_directory :: string
  config_file :: string
  VERSION :: string
  ap_ssid :: string
  ap_password :: string
  captive_portal_http_port :: nat
  network_connection_timeout :: nat
  ap_ip_address :: string
  ap_subnet :: string
  ap_gateway :: string
  ap_dns :: string
  hostname :: string
  dns_ip :: string
  dns_port :: nat
  buffer_size :: nat
  sta_web_server :: bool

definition init :: "string \<Rightarrow> string \<Rightarrow> string \<Rightarrow> bool \<Rightarrow> settings" where
  "init ssid password host web_server =
     \<lparr> config_directory = ''/config'',
       config_file = ''network_config.conf'',
       VERSION = ''1.0.1'',
       ap_ssid = ssid,
       ap_password = password,
       captive_portal_http_port = 80,
       network_connection_timeout = 10,
       ap_ip_address = ''192.168.4.1'',
       ap_subnet = ''255.255.255.0'',
       ap_gateway = ''192.168.4.1'',
       ap_dns = ''192.168.4.1'',
       hostname = host,
       dns_ip = ''192.168.4.1'',
       dns_port = 53,
       buffer_size = 512,
       sta_web_server = web_server \<rparr>"

text \<open>The constructor's default arguments.\<close>

definition default_settings :: settings where
  "default_settings = init ''Goat - Captive Portal'' ''password'' ''PicoW'' False"

text \<open>
  Every call that leaves the module is an event: the radio (\<^verbatim>\<open>network.WLAN\<close>), the file
  system and \<^verbatim>\<open>ConfigManager\<close>, the sockets and streams, the application server.
  \<open>handle\<close> is the object that \<^verbatim>\<open>self.server\<close> refers to.
\<close>

datatype handle = PortalServer | AppServer

datatype call =
    Hostname string
  | Listdir string
  | ConfigOpen string string
  | ConfigRead
  | ConfigGet string string
  | ConfigSet string string string
  | ConfigWrite
  | StaActive bool
  | StaConnect string "string option"
  | StaIfconfig
  | StaScan
  | StaDeinit
  | ApConfig string string
  | ApActive bool
  | ApIfconfigSet string string string string
  | ApIfconfig
  | ApDeinit
  | StartServer string nat
  | ServerClose handle
  | ServerWaitClosed handle
  | AppRun
  | AppStop
  | UdpSocket
  | UdpSetblocking bool
  | UdpBind string nat
  | UdpClose
  | ReaderRead nat
  | WriterWrite bytes
  | WriterDrain
  | WriterClose
  | WriterWaitClosed

text \<open>
  The mutable attributes of the manager (\<open>ip_address\<close>, \<open>server\<close>, and \<open>udp_server\<close> of its
  DNS object: whether it holds a socket), the state of the two interfaces as the module can
  observe it, the clock in tenths of a second, the lines printed, and the calls made so far.
\<close>

record world =
  ip_address :: "string option"
  server :: "handle option"
  udp_server :: bool
  sta_active :: bool
  sta_connected :: bool
  sta_target :: "(string \<times> string option) option"
  ap_active :: bool
  ap_connected :: bool
  ap_essid :: string
  ap_key :: string
  ap_net :: "string \<times> string \<times> string \<times> string"
  host :: string
  now :: nat
  recv_calls :: nat
  send_calls :: nat
  console :: "string list"
  trace :: "call list"

text \<open>
  What the module does not decide: whether a call raises (given the calls made before it),
  what the file system, the configuration file, the DHCP lease and a scan hold, when the
  station's link is up, what the UDP socket does at each attempt, and the two runtime
  functions \<^verbatim>\<open>bytes.decode\<close> and \<^verbatim>\<open>socket.inet_aton\<close>.
\<close>

record env =
  raises :: "call list \<Rightarrow> call \<Rightarrow> exn option"
  listing :: "call list \<Rightarrow> string list"
  entry :: "call list \<Rightarrow> string \<Rightarrow> string \<Rightarrow> string option"
  lease :: "call list \<Rightarrow> string"
  networks :: "call list \<Rightarrow> (bytes \<times> int) list"
  link_at :: "nat \<Rightarrow> bool"
  recvfrom_o :: "nat \<Rightarrow> (bytes \<times> string) sock_result"
  sendto_o :: "nat \<Rightarrow> unit sock_result"
  bytes_decode :: "bytes \<Rightarrow> exn + string"
  inet_aton :: "string \<Rightarrow> exn + bytes"

section \<open>Statements that may raise\<close>

text \<open>
  A statement takes the world and gives a value or the exception it raised, with the world
  it left. \<open>try_except\<close> is \<^verbatim>\<open>try: ... except Exception as e: ...\<close> (every exception of
  the model is an \<^verbatim>\<open>Exception\<close>); \<open>try_finally\<close> runs the \<^verbatim>\<open>finally\<close> block on both
  paths, and an exception of that block replaces the outcome of the body.
\<close>

type_synonym 'a io = "world \<Rightarrow> (exn + 'a) \<times> world"

definition ret :: "'a \<Rightarrow> 'a io" where
  "ret x = (\<lambda>w. (Inr x, w))"

definition raise :: "exn \<Rightarrow> 'a io" where
  "raise e = (\<lambda>w. (Inl e, w))"

definition bnd :: "'a io \<Rightarrow> ('a \<Rightarrow> 'b io) \<Rightarrow> 'b io" where
  "bnd m f = (\<lambda>w. case m w of (Inl e, w') \<Rightarrow> (Inl e, w') | (Inr x, w') \<Rightarrow> f x w')"

definition thn :: "unit io \<Rightarrow> 'a io \<Rightarrow> 'a io" where
  "thn m n = bnd m (\<lambda>_. n)"

fun seqs :: "unit io list \<Rightarrow> unit io" where
  "seqs [] = ret ()"
| "seqs (m # ms) = thn m (seqs ms)"

definition cond :: "bool \<Rightarrow> unit io \<Rightarrow> unit io" where
  "cond b m = (if b then m else ret ())"

definition try_except :: "'a io \<Rightarrow> (exn \<Rightarrow> 'a io) \<Rightarrow> 'a io" where
  "try_except m h = (\<lambda>w. case m w of (Inl e, w') \<Rightarrow> h e w' | (Inr x, w') \<Rightarrow> (Inr x, w'))"

definition try_finally :: "'a io \<Rightarrow> unit io \<Rightarrow> 'a io" where
  "try_finally m fin =
     (\<lambda>w. case m w of
             (r, w') \<Rightarrow> (case fin w' of (Inl e, w'') \<Rightarrow> (Inl e, w'') | (Inr u, w'') \<Rightarrow> (r, w'')))"

definition get :: "(world \<Rightarrow> 'a) \<Rightarrow> 'a io" where
  "get f = (\<lambda>w. (Inr (f w), w))"

definition modify :: "(world \<Rightarrow> world) \<Rightarrow> unit io" where
  "modify f = (\<lambda>w. (Inr (), f w))"

definition print :: "string \<Rightarrow> unit io" where
  "print s = modify (\<lambda>w. w\<lparr>console := console w @ [s]\<rparr>)"

text \<open>
  A call that may raise: it is recorded, the environment decides from the calls before it
  whether it raises, and it has its effect and its value only when it does not.
\<close>

definition ext :: "env \<Rightarrow> call \<Rightarrow> (call list \<Rightarrow> 'a) \<Rightarrow> (world \<Rightarrow> world) \<Rightarrow> 'a io" where
  "ext env c val eff =
     (\<lambda>w. let w' = w\<lparr>trace := trace w @ [c]\<rparr>
          in case raises env (trace w) c of
               Some e \<Rightarrow> (Inl e, w')
             | None \<Rightarrow> (Inr (val (trace w)), eff w'))"

text \<open>
  Calling a method that has one parameter besides \<^verbatim>\<open>self\<close> with the given positional
  arguments: the runtime raises TypeError unless there is exactly one.
\<close>

definition call1 :: "('a \<Rightarrow> 'b io) \<Rightarrow> 'a list \<Rightarrow> 'b io" where
  "call1 f args =
     (case args of
        [a] \<Rightarrow> f a
      | _ \<Rightarrow> raise (TypeError (''function takes 2 positional arguments but '' @
                  show_nat (length args + 1) @ '' were given'')))"

section \<open>The radio, the clock and the other collaborators\<close>

text \<open>
  Time passes in \<^verbatim>\<open>sleep\<close> only (\<open>d\<close> tenths of a second); the station's link is looked at
  when it returns: it is up when the interface is active, a connection was asked for and
  the environment has the link up at that time. \<^verbatim>\<open>utime.time()\<close> is whole seconds.
\<close>

definition sleep :: "env \<Rightarrow> nat \<Rightarrow> world \<Rightarrow> world" where
  "sleep env d w =
     w\<lparr>now := now w + d,
       sta_connected := (sta_active w \<and> sta_target w \<noteq> None \<and> link_at env (now w + d))\<rparr>"

definition utime_time :: "world \<Rightarrow> nat" where
  "utime_time w = now w div 10"

text \<open>
  \<^verbatim>\<open>while not self.sta_if.isconnected() and utime.time() < timeout: sleep(0.5)\<close>, in
  \<^verbatim>\<open>load_config\<close> with \<^verbatim>\<open>utime.sleep\<close> and in \<^verbatim>\<open>connect_to_wifi\<close> with \<^verbatim>\<open>asyncio.sleep\<close>.
\<close>

function poll :: "env \<Rightarrow> nat \<Rightarrow> world \<Rightarrow> world" where
  "poll env timeout w =
     (if \<not> sta_connected w \<and> utime_time w < timeout then poll env timeout (sleep env 5 w) else w)"
  by pat_completeness auto
termination
  by (relation "measure (\<lambda>(env, timeout, w). 10 * timeout - now w)")
     (auto simp: sleep_def utime_time_def)

declare poll.simps [simp del]

definition wait_for_link :: "env \<Rightarrow> nat \<Rightarrow> unit io" where
  "wait_for_link env seconds = modify (\<lambda>w. poll env (utime_time w + seconds) w)"

text \<open>
  The station interface. Deactivating it drops the link. \<^verbatim>\<open>isconnected()\<close> reads
  \<open>sta_connected\<close> and does not raise.
\<close>

definition sta_set_active :: "env \<Rightarrow> bool \<Rightarrow> unit io" where
  "sta_set_active env b =
     ext env (StaActive b) (\<lambda>t. ())
       (\<lambda>w. if b then w\<lparr>sta_active := True\<rparr>
             else w\<lparr>sta_active := False, sta_connected := False, sta_target := None\<rparr>)"

definition sta_connect :: "env \<Rightarrow> string \<Rightarrow> string option \<Rightarrow> unit io" where
  "sta_connect env ssid password =
     ext env (StaConnect ssid password) (\<lambda>t. ()) (\<lambda>w. w\<lparr>sta_target := Some (ssid, password)\<rparr>)"

definition sta_ifconfig :: "env \<Rightarrow> string io" where
  "sta_ifconfig env = ext env StaIfconfig (lease env) (\<lambda>w. w)"

definition sta_scan :: "env \<Rightarrow> (bytes \<times> int) list io" where
  "sta_scan env = ext env StaScan (networks env) (\<lambda>w. w)"

definition sta_deinit :: "env \<Rightarrow> unit io" where
  "sta_deinit env =
     ext env StaDeinit (\<lambda>t. ())
       (\<lambda>w. w\<lparr>sta_active := False, sta_connected := False, sta_target := None\<rparr>)"

text \<open>
  The access-point interface. An active access point reports \<^verbatim>\<open>isconnected()\<close>; it reads
  \<open>ap_connected\<close> and does not raise.
\<close>

definition ap_config :: "env \<Rightarrow> string \<Rightarrow> string \<Rightarrow> unit io" where
  "ap_config env essid password =
     ext env (ApConfig essid password) (\<lambda>t. ()) (\<lambda>w. w\<lparr>ap_essid := essid, ap_key := password\<rparr>)"

definition ap_set_active :: "env \<Rightarrow> bool \<Rightarrow> unit io" where
  "ap_set_active env b =
     ext env (ApActive b) (\<lambda>t. ()) (\<lambda>w. w\<lparr>ap_active := b, ap_connected := b\<rparr>)"

definition ap_ifconfig_set :: "env \<Rightarrow> string \<times> string \<times> string \<times> string \<Rightarrow> unit io" where
  "ap_ifconfig_set env cfg =
     (case cfg of
        (ip, subnet, gateway, dns) \<Rightarrow>
          ext env (ApIfconfigSet ip subnet gateway dns) (\<lambda>t. ()) (\<lambda>w. w\<lparr>ap_net := cfg\<rparr>))"

definition ap_ifconfig :: "env \<Rightarrow> (string \<times> string \<times> string \<times> string) io" where
  "ap_ifconfig env = bnd (ext env ApIfconfig (\<lambda>t. ()) (\<lambda>w. w)) (\<lambda>u. get ap_net)"

definition ap_deinit :: "env \<Rightarrow> unit io" where
  "ap_deinit env =
     ext env ApDeinit (\<lambda>t. ()) (\<lambda>w. w\<lparr>ap_active := False, ap_connected := False\<rparr>)"

text \<open>\<^verbatim>\<open>network.hostname\<close>, \<^verbatim>\<open>uos.listdir\<close> and \<^verbatim>\<open>ConfigManager\<close>.\<close>

definition set_hostname :: "env \<Rightarrow> string \<Rightarrow> unit io" where
  "set_hostname env h = ext env (Hostname h) (\<lambda>t. ()) (\<lambda>w. w\<lparr>host := h\<rparr>)"

definition listdir :: "env \<Rightarrow> string \<Rightarrow> string list io" where
  "listdir env d = ext env (Listdir d) (listing env) (\<lambda>w. w)"

definition config_open :: "env \<Rightarrow> string \<Rightarrow> string \<Rightarrow> unit io" where
  "config_open env d f = ext env (ConfigOpen d f) (\<lambda>t. ()) (\<lambda>w. w)"

definition config_read :: "env \<Rightarrow> unit io" where
  "config_read env = ext env ConfigRead (\<lambda>t. ()) (\<lambda>w. w)"

definition config_get :: "env \<Rightarrow> string \<Rightarrow> string \<Rightarrow> string option io" where
  "config_get env section key = ext env (ConfigGet section key) (\<lambda>t. entry env t section key) (\<lambda>w. w)"

definition config_set :: "env \<Rightarrow> string \<Rightarrow> string \<Rightarrow> string \<Rightarrow> unit io" where
  "config_set env section key v = ext env (ConfigSet section key v) (\<lambda>t. ()) (\<lambda>w. w)"

definition config_write :: "env \<Rightarrow> unit io" where
  "config_write env = ext env ConfigWrite (\<lambda>t. ()) (\<lambda>w. w)"

text \<open>
  The servers: \<^verbatim>\<open>self.server = await asyncio.start_server(...)\<close>,
  \<^verbatim>\<open>self.server = await self.sta_web_server.run()\<close>, and the stop calls.
\<close>

definition start_server :: "env \<Rightarrow> string \<Rightarrow> nat \<Rightarrow> unit io" where
  "start_server env ip port =
     ext env (StartServer ip port) (\<lambda>t. ()) (\<lambda>w. w\<lparr>server := Some PortalServer\<rparr>)"

definition server_close :: "env \<Rightarrow> handle \<Rightarrow> unit io" where
  "server_close env h = ext env (ServerClose h) (\<lambda>t. ()) (\<lambda>w. w)"

definition server_wait_closed :: "env \<Rightarrow> handle \<Rightarrow> unit io" where
  "server_wait_closed env h = ext env (ServerWaitClosed h) (\<lambda>t. ()) (\<lambda>w. w)"

definition app_run :: "env \<Rightarrow> unit io" where
  "app_run env = ext env AppRun (\<lambda>t. ()) (\<lambda>w. w\<lparr>server := Some AppServer\<rparr>)"

definition app_stop :: "env \<Rightarrow> unit io" where
  "app_stop env = ext env AppStop (\<lambda>t. ()) (\<lambda>w. w)"

text \<open>
  The streams of one HTTP connection. \<open>raw\<close> is what the client sent;
  \<^verbatim>\<open>reader.read(1024)\<close> gives at most 1024 bytes of it. Every call on the streams may
  raise, \<^verbatim>\<open>writer.close()\<close> and \<^verbatim>\<open>writer.wait_closed()\<close> included.
\<close>

definition reader_read :: "env \<Rightarrow> nat \<Rightarrow> bytes \<Rightarrow> bytes io" where
  "reader_read env n raw = ext env (ReaderRead n) (\<lambda>t. take n raw) (\<lambda>w. w)"

definition writer_write :: "env \<Rightarrow> bytes \<Rightarrow> unit io" where
  "writer_write env bs = ext env (WriterWrite bs) (\<lambda>t. ()) (\<lambda>w. w)"

definition writer_drain :: "env \<Rightarrow> unit io" where
  "writer_drain env = ext env WriterDrain (\<lambda>t. ()) (\<lambda>w. w)"

definition writer_close :: "env \<Rightarrow> unit io" where
  "writer_close env = ext env WriterClose (\<lambda>t. ()) (\<lambda>w. w)"

definition writer_wait_closed :: "env \<Rightarrow> unit io" where
  "writer_wait_closed env = ext env WriterWaitClosed (\<lambda>t. ()) (\<lambda>w. w)"

text \<open>\<^verbatim>\<open>data.decode()\<close>.\<close>

definition decode :: "env \<Rightarrow> bytes \<Rightarrow> string io" where
  "decode env bs = (case bytes_decode env bs of Inl e \<Rightarrow> raise e | Inr s \<Rightarrow> ret s)"

section \<open>NetworkManager\<close>

subsection \<open>\<^verbatim>\<open>load_config\<close> and \<^verbatim>\<open>save_config\<close>\<close>

text \<open>
  One iteration of \<^verbatim>\<open>while attempts < 3\<close>; the value says whether it ends in \<^verbatim>\<open>break\<close>.
\<close>

definition attempt :: "env \<Rightarrow> settings \<Rightarrow> string \<Rightarrow> string option \<Rightarrow> nat \<Rightarrow> bool io" where
  "attempt env st ssid password attempts =
     thn (sta_set_active env True)
    (thn (sta_connect env ssid password)
    (thn (print (''Attempting to connect to '' @ ssid @ ''...''))
    (thn (wait_for_link env (network_connection_timeout st))
    (bnd (get sta_connected) (\<lambda>connected.
       if connected then
         thn (bnd (sta_ifconfig env) (\<lambda>ip. modify (\<lambda>w. w\<lparr>ip_address := Some ip\<rparr>)))
        (thn (bnd (get ip_address) (\<lambda>ip.
                print (''Connected to '' @ ssid @ ''. IP: '' @ show_opt ip)))
        (thn (cond (sta_web_server st)
                (try_except (app_run env)
                   (\<lambda>e. print (''Error starting web server: '' @ msg e))))
             (ret True)))
       else
         thn (print (''Attempt '' @ show_nat (attempts + 1) @ '': Failed to connect to Wi-Fi.''))
             (ret False))))))"

function attempt_loop ::
  "env \<Rightarrow> settings \<Rightarrow> string \<Rightarrow> string option \<Rightarrow> nat \<Rightarrow> world \<Rightarrow> (exn + unit) \<times> world" where
  "attempt_loop env st ssid password attempts w =
     (if attempts < 3 then
        (case attempt env st ssid password attempts w of
           (Inl e, w') \<Rightarrow> (Inl e, w')
         | (Inr True, w') \<Rightarrow> (Inr (), w')
         | (Inr False, w') \<Rightarrow> attempt_loop env st ssid password (attempts + 1) w')
      else (Inr (), w))"
  by pat_completeness auto
termination
  by (relation "measure (\<lambda>(env, st, ssid, password, attempts, w). 3 - attempts)") auto

declare attempt_loop.simps [simp del]

definition load_config :: "env \<Rightarrow> settings \<Rightarrow> unit io" where
  "load_config env st =
     try_except
       (bnd (listdir env (config_directory st)) (\<lambda>files.
          if config_file st \<in> set files then
            thn (config_open env (config_directory st) (config_file st))
           (thn (config_read env)
           (bnd (config_get env ''network'' ''ssid'') (\<lambda>ssid.
            bnd (config_get env ''network'' ''password'') (\<lambda>password.
              case ssid of
                None \<Rightarrow> print ''No SSID provided in configuration. Cannot connect to a network.''
              | Some name \<Rightarrow>
                  if name = [] then
                    print ''No SSID provided in configuration. Cannot connect to a network.''
                  else
                    thn (attempt_loop env st name password 0)
                        (bnd (get sta_connected) (\<lambda>connected.
                           cond (\<not> connected)
                             (thn (sta_set_active env False)
                                  (print ''All connection attempts failed.''))))))))
          else print ''No saved network configuration found.''))
       (\<lambda>e. thn (sta_set_active env False)
                (print (''Error loading network configuration: '' @ msg e)))"

definition save_config :: "env \<Rightarrow> settings \<Rightarrow> string \<Rightarrow> string \<Rightarrow> unit io" where
  "save_config env st ssid password =
     try_except
       (seqs [
          config_open env (config_directory st) (config_file st),
          config_read env,
          config_set env ''network'' ''ssid'' ssid,
          config_set env ''network'' ''password'' password,
          config_write env,
          print ''Network configuration saved.''])
       (\<lambda>e. print (''Error saving configuration: '' @ msg e))"

subsection \<open>\<^verbatim>\<open>start_ap\<close> and \<^verbatim>\<open>stop_ap\<close>\<close>

definition start_ap :: "env \<Rightarrow> settings \<Rightarrow> unit io" where
  "start_ap env st =
     (if length (ap_password st) < 8 then print ''Password must be at least 8 characters long.''
      else
        try_except
          (seqs [
             ap_config env (ap_ssid st) (ap_password st),
             ap_set_active env True,
             ap_ifconfig_set env (ap_ip_address st, ap_subnet st, ap_gateway st, ap_dns st),
             bnd (ap_ifconfig env) (\<lambda>cfg. modify (\<lambda>w. w\<lparr>ip_address := Some (fst cfg)\<rparr>)),
             bnd (get ip_address) (\<lambda>ip.
               print (''Access point started. SSID: '' @ ap_ssid st @ '', IP: '' @ show_opt ip))])
          (\<lambda>e. print (''Error starting Access point: '' @ msg e)))"

definition stop_ap :: "env \<Rightarrow> unit io" where
  "stop_ap env =
     bnd (get ap_connected) (\<lambda>connected.
       if \<not> connected then print ''The access point is not currently enabled.''
       else
         try_except
           (seqs [
              ap_config env [] [],
              ap_set_active env False,
              ap_deinit env,
              modify (\<lambda>w. w\<lparr>ip_address := None\<rparr>),
              print ''Access point stopped.''])
           (\<lambda>e. print (''Error stopping Access point: '' @ msg e)))"

subsection \<open>The stop operations\<close>

definition stop_captive_portal_server :: "env \<Rightarrow> unit io" where
  "stop_captive_portal_server env =
     try_except
       (bnd (get server) (\<lambda>s.
          case s of
            Some h \<Rightarrow> seqs [server_close env h, server_wait_closed env h, print ''Server stopped.'']
          | None \<Rightarrow> print ''Server already stopped.''))
       (\<lambda>e. print (''Error stopping server: '' @ msg e))"

definition stop_dns :: "env \<Rightarrow> unit io" where
  "stop_dns env =
     bnd (get udp_server) (\<lambda>bound.
       cond bound
         (seqs [
            ext env UdpClose (\<lambda>t. ()) (\<lambda>w. w),
            modify (\<lambda>w. w\<lparr>udp_server := False\<rparr>),
            print ''DNS server stopped.'']))"

definition disconnect_from_wifi :: "env \<Rightarrow> unit io" where
  "disconnect_from_wifi env =
     bnd (get sta_connected) (\<lambda>connected.
       if \<not> connected then print ''The network is not connected.''
       else
         try_except
           (seqs [
              sta_set_active env False,
              sta_deinit env,
              modify (\<lambda>w. w\<lparr>ip_address := None\<rparr>)])
           (\<lambda>e. print (''Error disconnecting from wi-fi: '' @ msg e)))"

subsection \<open>The pages\<close>

definition title :: string where
  "title = ''Goat - Captive Portal''"

definition html_template :: "settings \<Rightarrow> string \<Rightarrow> string \<Rightarrow> string" where
  "html_template st ttl body =
     NL @ ''        <html>'' @ NL @
     ''        <head><title>'' @ ttl @ ''</title></head>'' @ NL @
     ''        <body>'' @ NL @
     ''            <h1>'' @ ttl @ ''</h1>'' @ NL @
     ''            <p>Welcome to the Goat - Captive Portal.</p>'' @ NL @
     ''            <p><a href='' @ DQ @ ''/'' @ DQ @ ''>Home</a></p>'' @ NL @
     ''            '' @ body @ NL @
     ''            <h1>Information</h1>'' @ NL @
     ''            <p>Check out other Goat Technologies offerings at <a href='' @ DQ @
       ''https://goatbot.org/'' @ DQ @ ''>Goatbot.org</a></p>'' @ NL @
     ''            <p><b>Version '' @ VERSION st @ ''</b><br>'' @ NL @
     ''            <b>'' @ [CHR 0xA9] @ '' (c) 2024-2025 Goat Technologies</b></p>'' @ NL @
     ''        </body>'' @ NL @
     ''        </html>'' @ NL @
     ''        ''"

definition index_welcome :: string where
  "index_welcome =
     ''<p>Welcome to the Goat - Captive Portal.<br>'' @ NL @
     ''        Use the portal to connect your Goat device to your wireless network.</p>''"

definition reconnect_form :: string where
  "reconnect_form =
     ''<form action='' @ DQ @ ''/reconnect'' @ DQ @ '' method='' @ DQ @ ''post'' @ DQ @ ''>''"

definition index_reconnect :: string where
  "index_reconnect =
     ''<h2>Reconnect To Saved Network</h2>'' @ NL @
     ''            <p>An existing saved wireless network connection is configured for this system.<br>'' @ NL @
     ''            Click the '' @ SQ @ ''Reconnect'' @ SQ @
       '' button below to attempt to reconnect to your saved network.</p>'' @ NL @
     ''            <p>'' @ reconnect_form @ NL @
     ''            <button type='' @ DQ @ ''submit'' @ DQ @ ''>Reconnect</button>'' @ NL @
     ''            </form></p>''"

definition scan_link :: string where
  "scan_link = ''<a href='' @ SQ @ ''/scan'' @ SQ @ ''>Start Scan</a>''"

definition index_connect :: string where
  "index_connect =
     ''<h2>Connect To A Network</h2>'' @ NL @
     ''        <p>Click the link below to scan for networks:</p>'' @ NL @
     ''        <p>'' @ scan_link @ ''</p>''"

definition scan_heading :: string where
  "scan_heading =
     ''<h2>Network Scan</h2><p>Network scan complete.</p><h3>Available Wi-Fi Networks</h3><p>The following wi-fi networks were detected:''"

definition scan_form :: "string \<Rightarrow> int \<Rightarrow> string" where
  "scan_form ssid strength =
     NL @ ''                    <form action='' @ SQ @ ''/connect'' @ SQ @ '' method='' @ SQ @
       ''POST'' @ SQ @ ''>'' @ NL @
     ''                        <label>'' @ ssid @ '' - Signal Strength: '' @ show_int strength @
       ''</label><br>'' @ NL @
     ''                        <input type='' @ SQ @ ''hidden'' @ SQ @ '' name='' @ SQ @ ''ssid'' @ SQ @
       '' value='' @ SQ @ ssid @ SQ @ ''>'' @ NL @
     ''                        <input type='' @ SQ @ ''password'' @ SQ @ '' name='' @ SQ @
       ''password'' @ SQ @ '' placeholder='' @ SQ @ ''Password'' @ SQ @ ''><br>'' @ NL @
     ''                        <button type='' @ SQ @ ''submit'' @ SQ @ ''>Connect</button>'' @ NL @
     ''                    </form><br>'' @ NL @
     ''                ''"

definition scan_error :: "exn \<Rightarrow> string" where
  "scan_error e =
     ''<h2>Scan Error</h2><p>An error occurred while scanning Wi-Fi networks.<br>Error: '' @
     msg e @ ''</p>''"

definition scan_footer :: string where
  "scan_footer =
     ''<h3>Information</h3>'' @ NL @
     ''        <p>If the network you want is not listed, click <a href='' @ DQ @ ''/scan'' @ DQ @
       ''>Rescan</a> to scan again.</p>'' @ NL @
     ''        <p><a href='' @ SQ @ ''/'' @ SQ @ ''>Go Back</a></p>'' @ NL @
     ''        ''"

definition connected_body :: "string \<Rightarrow> string" where
  "connected_body ssid =
     ''<h2>Connected</h2>'' @ NL @
     ''                    <p>You successfully connected to '' @ ssid @ ''.</p>'' @ NL @
     ''                    <h2>Information</h2>'' @ NL @
     ''                    <p>The access point has been shut down and you can now close this page.</p>''"

definition connection_failed_body :: "string \<Rightarrow> string" where
  "connection_failed_body ssid =
     ''<h2>Connection Failed</h2>'' @ NL @
     ''                    <p>Failed to connect to '' @ ssid @ ''.</p>''"

definition connection_error_body :: string where
  "connection_error_body =
     ''<h2>Connection Error</h2>'' @ NL @
     ''                <p>The SSID or password for the wi-fi network was not provided.</p>''"

definition error_body :: "exn \<Rightarrow> string" where
  "error_body e =
     ''<h2>Error</h2>'' @ NL @
     ''            <p>An error occurred: '' @ msg e @ ''</p>''"

definition reconnected_body :: string where
  "reconnected_body =
     ''<h2>Reconnected</h2>'' @ NL @
     ''                    <p>You successfully reconnected to your saved network.</p>'' @ NL @
     ''                    <h2>Information</h2>'' @ NL @
     ''                    <p>The access point has been shut down and you can now close this page.</p>''"

definition reconnection_failed_body :: string where
  "reconnection_failed_body =
     ''<h2>Reconnection Failed</h2>'' @ NL @
     ''                    <p>Failed to reconnect to your saved network.</p>''"

definition configuration_error_body :: string where
  "configuration_error_body =
     ''<h2>Configuration Error</h2>'' @ NL @
     ''                <p>There was an error locating your network configuration.<br>'' @ NL @
     ''                Please try manually reconnecting to the network.</p>''"

subsection \<open>The portal's actions\<close>

text \<open>
  The \<^verbatim>\<open>for\<close> loop of \<^verbatim>\<open>scan_networks\<close>, with \<open>html\<close> as accumulator. A network is its
  \<^verbatim>\<open>net[0]\<close> and \<^verbatim>\<open>net[3]\<close>. When \<^verbatim>\<open>net[0].decode()\<close> raises, the forms appended so far stay
  in \<open>html\<close>.
\<close>

fun render_networks ::
  "(bytes \<Rightarrow> exn + string) \<Rightarrow> (bytes \<times> int) list \<Rightarrow> string \<Rightarrow> exn option \<times> string" where
  "render_networks dec [] html = (None, html)"
| "render_networks dec (net # nets) html =
     (case dec (fst net) of
        Inl e \<Rightarrow> (Some e, html)
      | Inr ssid \<Rightarrow> render_networks dec nets (html @ scan_form ssid (snd net)))"

definition scan_networks :: "env \<Rightarrow> settings \<Rightarrow> string io" where
  "scan_networks env st =
     thn (sta_set_active env True)
    (bnd (try_finally
            (bnd (try_except
                    (bnd (sta_scan env) (\<lambda>nets.
                       ret (render_networks (bytes_decode env) nets scan_heading)))
                    (\<lambda>e. ret (Some e, scan_heading)))
                 (\<lambda>(failed, html).
                    ret (case failed of None \<Rightarrow> html | Some e \<Rightarrow> html @ scan_error e)))
            (sta_set_active env False))
         (\<lambda>html. ret (html_template st title (html @ scan_footer))))"

text \<open>
  \<^verbatim>\<open>connect_to_wifi\<close>. The form is decoded inside the \<^verbatim>\<open>try\<close>; none of its string
  operations raises, so \<open>ssid\<close> and \<open>password\<close> are bound when the \<^verbatim>\<open>finally\<close> block
  reads them.
\<close>

definition stop_fallback :: "env \<Rightarrow> unit io" where
  "stop_fallback env =
     try_except
       (seqs [stop_captive_portal_server env, stop_dns env, stop_ap env])
       (\<lambda>e. print (''Error stopping access point services: '' @ msg e))"

definition connect_to_wifi :: "env \<Rightarrow> settings \<Rightarrow> string \<Rightarrow> string io" where
  "connect_to_wifi env st request =
     (let params = form_params request;
          ssid = params_get params ''ssid'';
          password = params_get params ''password''
      in try_finally
           (try_except
              (if ssid \<noteq> [] \<and> password \<noteq> [] then
                 thn (sta_set_active env True)
                (thn (sta_connect env ssid (Some password))
                (thn (wait_for_link env (network_connection_timeout st))
                (bnd (get sta_connected) (\<lambda>connected.
                   if connected then
                     thn (bnd (sta_ifconfig env) (\<lambda>ip. modify (\<lambda>w. w\<lparr>ip_address := Some ip\<rparr>)))
                         (ret (html_template st title (connected_body ssid)))
                   else
                     thn (sta_set_active env False)
                         (ret (html_template st title (connection_failed_body ssid)))))))
               else
                 thn (sta_set_active env False)
                     (ret (html_template st title connection_error_body)))
              (\<lambda>e. thn (sta_set_active env False)
                       (ret (html_template st title (error_body e)))))
           (bnd (get sta_connected) (\<lambda>connected.
              cond connected
                (seqs [
                   try_except (save_config env st ssid password)
                     (\<lambda>e. print (''Error saving network configuration: '' @ msg e)),
                   stop_fallback env,
                   cond (sta_web_server st)
                     (try_except (app_run env)
                        (\<lambda>e. print (''Error starting station web server: '' @ msg e)))]))))"

text \<open>\<^verbatim>\<open>reconnect_to_wifi(self, request)\<close>; it does not read \<open>request\<close>.\<close>

definition reconnect_to_wifi :: "env \<Rightarrow> settings \<Rightarrow> string \<Rightarrow> string io" where
  "reconnect_to_wifi env st request =
     try_finally
       (try_except
          (bnd (listdir env (config_directory st)) (\<lambda>files.
             if config_file st \<in> set files then
               thn (load_config env st)
                   (bnd (get sta_connected) (\<lambda>connected.
                      if connected then ret (html_template st title reconnected_body)
                      else ret (html_template st title reconnection_failed_body)))
             else ret (html_template st title configuration_error_body)))
          (\<lambda>e. ret (html_template st title (error_body e))))
       (bnd (get sta_connected) (\<lambda>connected. cond connected (stop_fallback env)))"

definition serve_index :: "env \<Rightarrow> settings \<Rightarrow> string io" where
  "serve_index env st =
     bnd (listdir env (config_directory st)) (\<lambda>files.
       ret (html_template st title
              (index_welcome @
               (if config_file st \<in> set files then index_reconnect else []) @
               index_connect)))"

subsection \<open>\<^verbatim>\<open>handle_request\<close>\<close>

text \<open>
  The chain of \<^verbatim>\<open>if\<close>/\<^verbatim>\<open>elif\<close> that builds \<open>response\<close>. The branch for
  \<^verbatim>\<open>POST /reconnect\<close> calls \<^verbatim>\<open>self.reconnect_to_wifi()\<close> with no argument.
\<close>

definition no_content :: string where
  "no_content = ''HTTP/1.1 204 No Content'' @ CR @ NL @ CR @ NL"

definition ok_html :: string where
  "ok_html = ''HTTP/1.1 200 OK'' @ CR @ NL @ ''Content-Type: text/html'' @ CR @ NL @ CR @ NL"

definition ok_plain :: string where
  "ok_plain = ''HTTP/1.1 200 OK'' @ CR @ NL @ ''Content-Type: text/plain'' @ CR @ NL @ CR @ NL"

definition route :: "env \<Rightarrow> settings \<Rightarrow> string \<Rightarrow> string io" where
  "route env st request =
     (if contains ''GET /generate_204'' request then ret no_content
      else if contains ''GET /connectivity-check'' request then ret no_content
      else if contains ''GET /hotspot-detect.html'' request then
        ret (ok_html @ ''<HTML><BODY><H1>Success</H1></BODY></HTML>'')
      else if contains ''GET /success.conf'' request then ret (ok_plain @ ''Microsoft Connect Test'')
      else if contains ''GET /ncsi.conf'' request then ret (ok_plain @ ''Microsoft NCSI'')
      else if contains ''GET /scan'' request then
        bnd (scan_networks env st) (\<lambda>page. ret (ok_html @ page))
      else if contains ''POST /connect'' request then
        bnd (connect_to_wifi env st request) (\<lambda>page. ret (ok_html @ page))
      else if contains ''POST /reconnect'' request then
        bnd (call1 (reconnect_to_wifi env st) []) (\<lambda>page. ret (ok_html @ page))
      else
        bnd (serve_index env st) (\<lambda>page. ret (ok_html @ page)))"

definition handle_request :: "env \<Rightarrow> settings \<Rightarrow> bytes \<Rightarrow> unit io" where
  "handle_request env st raw =
     try_finally
       (try_except
          (bnd (reader_read env 1024 raw) (\<lambda>data.
           bnd (decode env data) (\<lambda>request.
           thn (print (''Request: '' @ request))
          (bnd (route env st request) (\<lambda>response.
           thn (writer_write env (encode response))
               (writer_drain env))))))
          (\<lambda>e. print (''Error handling request: '' @ msg e)))
       (thn (writer_close env) (writer_wait_closed env))"

section \<open>The tasks that do not return\<close>

text \<open>
  \<^verbatim>\<open>start_captive_portal_server\<close>, \<^verbatim>\<open>start_dns\<close> and \<^verbatim>\<open>run\<close> hold a \<^verbatim>\<open>while True\<close> loop.
  They take fuel, one unit per iteration of a loop, and give \<open>None\<close> with the world
  reached when a loop is still running as the fuel is spent. An \<^verbatim>\<open>except\<close> clause or a
  \<^verbatim>\<open>finally\<close> block of a task runs once its body has ended, not while it is running.
\<close>

type_synonym task = "world \<Rightarrow> (exn + unit) option \<times> world"

definition lift :: "unit io \<Rightarrow> task" where
  "lift m = (\<lambda>w. case m w of (r, w') \<Rightarrow> (Some r, w'))"

definition tthen :: "task \<Rightarrow> task \<Rightarrow> task" where
  "tthen a b = (\<lambda>w. case a w of (Some (Inr u), w') \<Rightarrow> b w' | (r, w') \<Rightarrow> (r, w'))"

definition task_except :: "task \<Rightarrow> (exn \<Rightarrow> unit io) \<Rightarrow> task" where
  "task_except a h = (\<lambda>w. case a w of (Some (Inl e), w') \<Rightarrow> lift (h e) w' | (r, w') \<Rightarrow> (r, w'))"

definition task_finally :: "task \<Rightarrow> unit io \<Rightarrow> task" where
  "task_finally a fin =
     (\<lambda>w. case a w of
             (None, w') \<Rightarrow> (None, w')
           | (Some r, w') \<Rightarrow>
               (case fin w' of (Inl e, w'') \<Rightarrow> (Some (Inl e), w'') | (Inr u, w'') \<Rightarrow> (Some r, w'')))"

subsection \<open>\<^verbatim>\<open>start_captive_portal_server\<close>\<close>

text \<open>\<^verbatim>\<open>while True: await asyncio.sleep(1)\<close>.\<close>

fun serve_forever :: "env \<Rightarrow> nat \<Rightarrow> task" where
  "serve_forever env 0 = (\<lambda>w. (None, w))"
| "serve_forever env (Suc n) = (\<lambda>w. serve_forever env n (sleep env 10 w))"

definition start_captive_portal_server :: "env \<Rightarrow> settings \<Rightarrow> nat \<Rightarrow> task" where
  "start_captive_portal_server env st n =
     (\<lambda>w. case ip_address w of
             None \<Rightarrow> lift (print ''AP IP address not assigned. Cannot start server.'') w
           | Some ip \<Rightarrow>
               if ip = [] then lift (print ''AP IP address not assigned. Cannot start server.'') w
               else
                 task_except
                   (tthen
                      (lift (thn (start_server env ip (captive_portal_http_port st))
                                 (print (''Serving on '' @ ip @ '':'' @
                                         show_nat (captive_portal_http_port st)))))
                      (serve_forever env n))
                   (\<lambda>e. print (''Error starting the captive portal server: '' @ msg e)) w)"

subsection \<open>\<^verbatim>\<open>start_dns\<close>\<close>

text \<open>
  One iteration of the receive loop: the inner \<^verbatim>\<open>try\<close> with its \<^verbatim>\<open>except Exception\<close>.
  The sender address is held as the text that \<^verbatim>\<open>{addr}\<close> formats.
\<close>

definition dns_iteration :: "env \<Rightarrow> settings \<Rightarrow> nat \<Rightarrow> task" where
  "dns_iteration env st n =
     (\<lambda>w. case receive_from (recvfrom_o env) n (recv_calls w) of
             None \<Rightarrow> (None, w\<lparr>recv_calls := recv_calls w + n\<rparr>)
           | Some (Raised e k) \<Rightarrow>
               lift (print (''Error handling DNS query: '' @ msg e)) (w\<lparr>recv_calls := Suc k\<rparr>)
           | Some (Returned (data, addr) k) \<Rightarrow>
               (let w1 = w\<lparr>recv_calls := Suc k\<rparr>
                in if data = [] then (Some (Inr ()), w1)
                   else
                     (case handle_dns_query (bytes_decode env) (inet_aton env) (dns_ip st) data of
                        (lines, response) \<Rightarrow>
                          (let w2 = w1\<lparr>console :=
                                         console w1 @ [''DNS query received from '' @ addr] @ lines\<rparr>
                           in case send_to (sendto_o env) n (send_calls w2) of
                                None \<Rightarrow> (None, w2\<lparr>send_calls := send_calls w2 + n\<rparr>)
                              | Some (Raised e k') \<Rightarrow>
                                  lift (print (''Error handling DNS query: '' @ msg e))
                                    (w2\<lparr>send_calls := Suc k'\<rparr>)
                              | Some (Returned u k') \<Rightarrow>
                                  (Some (Inr ()), w2\<lparr>send_calls := Suc k'\<rparr>)))))"

fun dns_loop :: "env \<Rightarrow> settings \<Rightarrow> nat \<Rightarrow> task" where
  "dns_loop env st 0 = (\<lambda>w. (None, w))"
| "dns_loop env st (Suc n) =
     (\<lambda>w. case dns_iteration env st n w of
             (None, w') \<Rightarrow> (None, w')
           | (Some r, w') \<Rightarrow> dns_loop env st n w')"

definition start_dns :: "env \<Rightarrow> settings \<Rightarrow> nat \<Rightarrow> task" where
  "start_dns env st n =
     task_finally
       (task_except
          (tthen
             (lift (seqs [
                ext env UdpSocket (\<lambda>t. ()) (\<lambda>w. w\<lparr>udp_server := True\<rparr>),
                ext env (UdpSetblocking False) (\<lambda>t. ()) (\<lambda>w. w),
                ext env (UdpBind (dns_ip st) (dns_port st)) (\<lambda>t. ()) (\<lambda>w. w),
                print (''DNS server started listening on IP address '' @ dns_ip st @
                       '' port '' @ show_nat (dns_port st) @ ''.'')]))
             (dns_loop env st n))
          (\<lambda>e. print (''Error starting DNS server: '' @ msg e)))
       (bnd (get udp_server) (\<lambda>bound.
          cond bound
            (thn (ext env UdpClose (\<lambda>t. ()) (\<lambda>w. w)) (print ''DNS server socket closed.''))))"

subsection \<open>\<^verbatim>\<open>run\<close>\<close>

text \<open>The three awaits of the fallback, one after the other.\<close>

definition fallback :: "env \<Rightarrow> settings \<Rightarrow> nat \<Rightarrow> task" where
  "fallback env st n =
     tthen (lift (thn (print ''Switching to AP mode...'') (start_ap env st)))
    (tthen (start_captive_portal_server env st n)
           (start_dns env st n))"

text \<open>The first \<^verbatim>\<open>if\<close> of the loop body.\<close>

definition reconnect_step :: "env \<Rightarrow> settings \<Rightarrow> nat \<Rightarrow> task" where
  "reconnect_step env st n =
     (\<lambda>w. if \<not> sta_connected w then
             tthen (lift (thn (print ''Station disconnected, attempting reconnection...'')
                              (load_config env st)))
                   (\<lambda>w'. if \<not> sta_connected w' then fallback env st n w' else (Some (Inr ()), w')) w
           else (Some (Inr ()), w))"

text \<open>The second \<^verbatim>\<open>if\<close> with its \<^verbatim>\<open>continue\<close>, and the \<^verbatim>\<open>sleep(0.1)\<close> that ends the body.\<close>

definition idle_step :: "env \<Rightarrow> unit io" where
  "idle_step env =
     bnd (get (\<lambda>w. \<not> sta_connected w \<and> \<not> ap_connected w)) (\<lambda>no_connection.
       if no_connection then
         thn (print ''No active connections. Rescanning...'') (modify (sleep env 30))
       else modify (sleep env 1))"

fun run_loop :: "env \<Rightarrow> settings \<Rightarrow> nat \<Rightarrow> task" where
  "run_loop env st 0 = (\<lambda>w. (None, w))"
| "run_loop env st (Suc n) =
     tthen (reconnect_step env st n) (tthen (lift (idle_step env)) (run_loop env st n))"

text \<open>The \<^verbatim>\<open>finally\<close> block of \<^verbatim>\<open>run\<close>.\<close>

definition cleanup :: "env \<Rightarrow> settings \<Rightarrow> unit io" where
  "cleanup env st =
     seqs [
       print ''Cleaning up resources...'',
       try_except
         (seqs [
            cond (sta_web_server st)
              (thn (print ''Stopping STA web server...'') (app_stop env)),
            bnd (get sta_connected) (\<lambda>connected.
              cond connected
                (thn (print ''Disconnecting from WiFi...'') (disconnect_from_wifi env))),
            bnd (get ap_connected) (\<lambda>connected.
              cond connected
                (seqs [
                   print ''Stopping access point services...'',
                   stop_dns env,
                   stop_captive_portal_server env,
                   stop_ap env]))])
         (\<lambda>e. print (''Error during cleanup: '' @ msg e)),
       modify (sleep env 0)]"

definition run :: "env \<Rightarrow> settings \<Rightarrow> nat \<Rightarrow> task" where
  "run env st n =
     task_finally
       (task_except
          (tthen
             (lift (seqs [
                print (''Goat - Network Manager Version '' @ VERSION st),
                set_hostname env (hostname st),
                load_config env st]))
             (run_loop env st n))
          (\<lambda>e. print (''Error in network manager: '' @ msg e)))
       (cleanup env st)"

section \<open>Concrete inputs\<close>

text \<open>
  An environment in which no call raises, the configuration directory is empty, the
  station's link never comes up and no datagram arrives; and the world at power-up.
\<close>

definition calm :: env where
  "calm =
     \<lparr> raises = (\<lambda>t c. None),
       listing = (\<lambda>t. []),
       entry = (\<lambda>t section key. None),
       lease = (\<lambda>t. ''192.168.1.50''),
       networks = (\<lambda>t. []),
       link_at = (\<lambda>n. False),
       recvfrom_o = (\<lambda>k. SockRaise (OSError 11 ''EAGAIN'')),
       sendto_o = (\<lambda>k. SockOk ()),
       bytes_decode = (\<lambda>bs. Inr (map (\<lambda>b. char_of (unat b)) bs)),
       inet_aton = (\<lambda>ip. Inr [192, 168, 4, 1]) \<rparr>"

definition boot :: world where
  "boot =
     \<lparr> ip_address = None,
       server = None,
       udp_server = False,
       sta_active = False,
       sta_connected = False,
       sta_target = None,
       ap_active = False,
       ap_connected = False,
       ap_essid = [],
       ap_key = [],
       ap_net = ([], [], [], []),
       host = [],
       now = 0,
       recv_calls = 0,
       send_calls = 0,
       console = [],
       trace = [] \<rparr>"

text \<open>
  The service that a call of the shutdown belongs to, in the order of the \<^verbatim>\<open>finally\<close>
  block of \<^verbatim>\<open>run\<close>: application server, station, DNS redirector, HTTP listener, access
  point.
\<close>

fun stage :: "call \<Rightarrow> nat" where
  "stage AppStop = 0"
| "stage (StaActive b) = 1"
| "stage StaDeinit = 1"
| "stage UdpClose = 2"
| "stage (ServerClose h) = 3"
| "stage (ServerWaitClosed h) = 3"
| "stage (ApConfig essid password) = 4"
| "stage (ApActive b) = 4"
| "stage ApDeinit = 4"
| "stage c = 5"

text \<open>A request for the saved-network reconnection, as a browser's form sends it.\<close>

definition reconnect_request :: string where
  "reconnect_request = ''POST /reconnect HTTP/1.1'' @ CR @ NL @ CR @ NL"

text \<open>
  A device that holds a saved configuration for the network \<^verbatim>\<open>home\<close>, out of range: the
  file is listed, its entries are read, the link never comes up.
\<close>

definition saved :: env where
  "saved =
     calm\<lparr>listing := (\<lambda>t. [''network_config.conf'']),
          entry := (\<lambda>t section key. if key = ''ssid'' then Some ''home'' else Some ''secret'')\<rparr>"



text \<open>
  A captive-portal probe, and an environment in which waiting for the client's stream to
  close raises.
\<close>

definition probe_request :: string where
  "probe_request = ''GET /generate_204 HTTP/1.1'' @ CR @ NL @ CR @ NL"

definition wait_closed_fails :: env where
  "wait_closed_fails =
     calm\<lparr>raises := (\<lambda>t c. if c = WriterWaitClosed then Some (OSError 104 ''ECONNRESET'')
                              else None)\<rparr>"



section \<open>Predicates on statements\<close>

text \<open>
  \<open>emits P m\<close>: running \<open>m\<close> only adds calls to the record of calls, and each call
  added satisfies \<open>P\<close>. \<open>extends m\<close>: running \<open>m\<close> only adds calls.
  \<open>ordered lo hi m\<close>: the calls that \<open>m\<close> adds belong to the shutdown stages \<open>lo\<close> to
  \<open>hi\<close> and are made in the order of these stages.
\<close>

definition emits :: "(call \<Rightarrow> bool) \<Rightarrow> 'a io \<Rightarrow> bool" where
  "emits P m \<longleftrightarrow> (\<forall>w. \<exists>t. trace (snd (m w)) = trace w @ t \<and> list_all P t)"

definition extends :: "'a io \<Rightarrow> bool" where
  "extends m \<longleftrightarrow> (\<forall>w. prefix (trace w) (trace (snd (m w))))"

definition ordered :: "nat \<Rightarrow> nat \<Rightarrow> 'a io \<Rightarrow> bool" where
  "ordered lo hi m \<longleftrightarrow>
     (\<forall>w. \<exists>t. trace (snd (m w)) = trace w @ t \<and> sorted (map stage t) \<and>
               (\<forall>c \<in> set t. lo \<le> stage c \<and> stage c \<le> hi))"

section \<open>Properties of the DNS redirector\<close>

lemma decode_labels_Inr_bound:
  "decode_labels dec qs i parts = Inr r \<Longrightarrow> i < length qs"
  by (subst (asm) decode_labels.simps) (simp split: if_splits)

lemma decode_domain_name_Inr_bound:
  "decode_domain_name dec qs = Inr name \<Longrightarrow> 0 < length qs"
  by (auto simp: decode_domain_name_def split: sum.splits dest: decode_labels_Inr_bound)

lemma receive_from_skip:
  "(\<forall>j<n. would_block (sock (k + j))) \<Longrightarrow> receive_from sock (n + fuel) k = receive_from sock fuel (k + n)"
proof (induction n arbitrary: k)
  case 0
  then show ?case by simp
next
  case (Suc n)
  from Suc.prems have wb: "would_block (sock k)" by (metis add.right_neutral zero_less_Suc)
  from Suc.prems have "\<forall>j<n. would_block (sock (Suc k + j))" by auto
  then have "receive_from sock (n + fuel) (Suc k) = receive_from sock fuel (Suc k + n)"
    by (rule Suc.IH)
  with wb show ?case
    by (cases "sock k" rule: would_block.cases) auto
qed

lemma send_to_skip:
  "(\<forall>j<n. would_block (sock (k + j))) \<Longrightarrow> send_to sock (n + fuel) k = send_to sock fuel (k + n)"
proof (induction n arbitrary: k)
  case 0
  then show ?case by simp
next
  case (Suc n)
  from Suc.prems have wb: "would_block (sock k)" by (metis add.right_neutral zero_less_Suc)
  from Suc.prems have "\<forall>j<n. would_block (sock (Suc k + j))" by auto
  then have "send_to sock (n + fuel) (Suc k) = send_to sock fuel (Suc k + n)"
    by (rule Suc.IH)
  with wb show ?case
    by (cases "sock k" rule: would_block.cases) auto
qed

lemma receive_from_at:
  "receive_from sock (Suc fuel) k =
     (if would_block (sock k) then receive_from sock fuel (Suc k)
      else case sock k of SockOk da \<Rightarrow> Some (Returned da k) | SockRaise e \<Rightarrow> Some (Raised e k))"
  by (cases "sock k" rule: would_block.cases) auto

lemma send_to_at:
  "send_to sock (Suc fuel) k =
     (if would_block (sock k) then send_to sock fuel (Suc k)
      else case sock k of SockOk da \<Rightarrow> Some (Returned () k) | SockRaise e \<Rightarrow> Some (Raised e k))"
  by (cases "sock k" rule: would_block.cases) auto

text \<open>
  Claim C10. While the first \<open>n\<close> calls of \<^verbatim>\<open>recvfrom\<close> raise OSError with errno 11,
  \<^verbatim>\<open>_receive_from\<close> has not returned after \<open>n\<close> iterations; if the next call succeeds it
  returns that datagram and address, and if it raises anything else (an OSError with
  another errno included) the exception reaches the caller; in both cases after exactly
  \<open>n\<close> yields. The same holds of \<^verbatim>\<open>_send_to\<close>, which returns after one successful send.
\<close>

theorem dns_socket_wrappers:
  "(\<forall>j<n. would_block (rsock j)) \<and> (\<forall>j<m. would_block (ssock j)) \<longrightarrow>
     receive_from rsock n 0 = None \<and>
     (\<forall>da. rsock n = SockOk da \<longrightarrow>
        receive_from rsock (Suc n + fuel) 0 = Some (Returned da n)) \<and>
     (\<forall>e. rsock n = SockRaise e \<and> \<not> would_block (rsock n) \<longrightarrow>
        receive_from rsock (Suc n + fuel) 0 = Some (Raised e n)) \<and>
     send_to ssock m 0 = None \<and>
     (\<forall>u. ssock m = SockOk u \<longrightarrow>
        send_to ssock (Suc m + fuel) 0 = Some (Returned () m)) \<and>
     (\<forall>e. ssock m = SockRaise e \<and> \<not> would_block (ssock m) \<longrightarrow>
        send_to ssock (Suc m + fuel) 0 = Some (Raised e m))"
proof (intro impI, elim conjE)
  assume r: "\<forall>j<n. would_block (rsock j)" and s: "\<forall>j<m. would_block (ssock j)"
  have r0: "receive_from rsock (n + f) 0 = receive_from rsock f n" for f
    using receive_from_skip [of n rsock 0 f] r by simp
  have s0: "send_to ssock (m + f) 0 = send_to ssock f m" for f
    using send_to_skip [of m ssock 0 f] s by simp
  have r1: "receive_from rsock (Suc n + fuel) 0 = receive_from rsock (Suc fuel) n"
    using r0 [of "Suc fuel"] by simp
  have s1: "send_to ssock (Suc m + fuel) 0 = send_to ssock (Suc fuel) m"
    using s0 [of "Suc fuel"] by simp
  have "receive_from rsock n 0 = None" using r0 [of 0] by simp
  moreover have "send_to ssock m 0 = None" using s0 [of 0] by simp
  moreover have "\<forall>da. rsock n = SockOk da \<longrightarrow>
        receive_from rsock (Suc n + fuel) 0 = Some (Returned da n)"
    unfolding r1 by (auto simp: receive_from_at simp del: receive_from.simps)
  moreover have "\<forall>e. rsock n = SockRaise e \<and> \<not> would_block (rsock n) \<longrightarrow>
        receive_from rsock (Suc n + fuel) 0 = Some (Raised e n)"
    unfolding r1 by (auto simp: receive_from_at simp del: receive_from.simps)
  moreover have "\<forall>u. ssock m = SockOk u \<longrightarrow>
        send_to ssock (Suc m + fuel) 0 = Some (Returned () m)"
    unfolding s1 by (auto simp: send_to_at simp del: send_to.simps)
  moreover have "\<forall>e. ssock m = SockRaise e \<and> \<not> would_block (ssock m) \<longrightarrow>
        send_to ssock (Suc m + fuel) 0 = Some (Raised e m)"
    unfolding s1 by (auto simp: send_to_at simp del: send_to.simps)
  ultimately show "receive_from rsock n 0 = None \<and>
     (\<forall>da. rsock n = SockOk da \<longrightarrow>
        receive_from rsock (Suc n + fuel) 0 = Some (Returned da n)) \<and>
     (\<forall>e. rsock n = SockRaise e \<and> \<not> would_block (rsock n) \<longrightarrow>
        receive_from rsock (Suc n + fuel) 0 = Some (Raised e n)) \<and>
     send_to ssock m 0 = None \<and>
     (\<forall>u. ssock m = SockOk u \<longrightarrow>
        send_to ssock (Suc m + fuel) 0 = Some (Returned () m)) \<and>
     (\<forall>e. ssock m = SockRaise e \<and> \<not> would_block (ssock m) \<longrightarrow>
        send_to ssock (Suc m + fuel) 0 = Some (Raised e m))"
    by blast
qed

lemma handle_dns_query_snd:
  "snd (handle_dns_query dec aton ip data) =
     (case decode_domain_name dec (drop 12 data) of
        Inl e \<Rightarrow> []
      | Inr name \<Rightarrow>
          (case aton ip of
             Inl e \<Rightarrow> []
           | Inr addr \<Rightarrow>
               take 2 data @ [0x81, 0x80] @ take 2 (drop 4 data) @ [0x00, 0x01] @
               [0x00, 0x00] @ [0x00, 0x00] @ drop 12 data @
               [0xc0, 0x0c] @ [0x00, 0x01] @ [0x00, 0x01] @ [0x00, 0x00, 0x00, 0x3c] @
               [0x00, 0x04] @ addr))"
  by (simp add: handle_dns_query_def Let_def split: sum.splits)

text \<open>
  Claim C3. When the name in the query decodes and the portal address converts, the bytes
  returned are the transaction id, \<open>0x8180\<close>, the query's bytes 4 and 5, the counts
  \<open>0x0001\<close>, \<open>0x0000\<close>, \<open>0x0000\<close>, every byte of the query from offset 12 on, and the
  answer record \<open>0xC00C 0x0001 0x0001 0x0000003C 0x0004\<close> with the address. Such a query
  has more than 12 bytes, so the answer starts with the query's two id bytes and holds the
  query's question bytes at the same offset. When decoding or converting raises, the bytes
  returned are empty.
\<close>

theorem handle_dns_query_answer:
  "(\<forall>name addr. decode_domain_name dec (drop 12 data) = Inr name \<and> aton ip = Inr addr \<longrightarrow>
      snd (handle_dns_query dec aton ip data) =
        take 2 data @ [0x81, 0x80] @ take 2 (drop 4 data) @ [0x00, 0x01] @
        [0x00, 0x00] @ [0x00, 0x00] @ drop 12 data @
        [0xc0, 0x0c] @ [0x00, 0x01] @ [0x00, 0x01] @ [0x00, 0x00, 0x00, 0x3c] @
        [0x00, 0x04] @ addr \<and>
      12 < length data \<and>
      take 2 (snd (handle_dns_query dec aton ip data)) = take 2 data \<and>
      take (length data - 12) (drop 12 (snd (handle_dns_query dec aton ip data))) = drop 12 data \<and>
      length (snd (handle_dns_query dec aton ip data)) = length data + 12 + length addr) \<and>
   ((\<exists>e. decode_domain_name dec (drop 12 data) = Inl e) \<or> (\<exists>e. aton ip = Inl e) \<longrightarrow>
      snd (handle_dns_query dec aton ip data) = [])"
proof (intro conjI allI impI)
  fix name addr
  assume ok: "decode_domain_name dec (drop 12 data) = Inr name \<and> aton ip = Inr addr"
  then have len: "12 < length data"
    using decode_domain_name_Inr_bound [of dec "drop 12 data" name] by simp
  show "12 < length data" by (rule len)
  show eq: "snd (handle_dns_query dec aton ip data) =
        take 2 data @ [0x81, 0x80] @ take 2 (drop 4 data) @ [0x00, 0x01] @
        [0x00, 0x00] @ [0x00, 0x00] @ drop 12 data @
        [0xc0, 0x0c] @ [0x00, 0x01] @ [0x00, 0x01] @ [0x00, 0x00, 0x00, 0x3c] @
        [0x00, 0x04] @ addr"
    using ok by (simp add: handle_dns_query_snd)
  from len have l2: "length (take 2 data) = 2" and l4: "length (take 2 (drop 4 data)) = 2"
    by simp_all
  show "take 2 (snd (handle_dns_query dec aton ip data)) = take 2 data"
    unfolding eq using l2 by simp
  show "take (length data - 12) (drop 12 (snd (handle_dns_query dec aton ip data))) = drop 12 data"
    unfolding eq using l2 l4 by simp
  show "length (snd (handle_dns_query dec aton ip data)) = length data + 12 + length addr"
    unfolding eq using len by simp
next
  assume "(\<exists>e. decode_domain_name dec (drop 12 data) = Inl e) \<or> (\<exists>e. aton ip = Inl e)"
  then show "snd (handle_dns_query dec aton ip data) = []"
    by (auto simp: handle_dns_query_snd split: sum.splits)
qed

text \<open>
  Two would-block errors and then a datagram; one would-block error and then errno 5.
\<close>

theorem dns_socket_wrappers_witness:
  "would_block ((\<lambda>k. if k < 2 then SockRaise (OSError 11 ''EAGAIN'')
                      else SockOk ([1 :: byte], ''client'')) (0 :: nat)) \<and>
   would_block ((\<lambda>k. if k < 2 then SockRaise (OSError 11 ''EAGAIN'')
                      else SockOk ([1 :: byte], ''client'')) (1 :: nat)) \<and>
   would_block ((\<lambda>k. if k < 1 then SockRaise (OSError 11 ''EAGAIN'')
                      else SockRaise (OSError 5 ''EIO'')) (0 :: nat)) \<and>
   receive_from (\<lambda>k. if k < 2 then SockRaise (OSError 11 ''EAGAIN'')
                      else SockOk ([1 :: byte], ''client'')) 2 0 = None \<and>
   receive_from (\<lambda>k. if k < 2 then SockRaise (OSError 11 ''EAGAIN'')
                      else SockOk ([1 :: byte], ''client'')) 3 0
     = Some (Returned ([1], ''client'') 2) \<and>
   send_to (\<lambda>k. if k < 1 then SockRaise (OSError 11 ''EAGAIN'')
                 else SockRaise (OSError 5 ''EIO'')) 1 0 = None \<and>
   send_to (\<lambda>k. if k < 1 then SockRaise (OSError 11 ''EAGAIN'')
                 else SockRaise (OSError 5 ''EIO'')) 2 0
     = Some (Raised (OSError 5 ''EIO'') 1)"
  using dns_socket_wrappers
    [of 2 "\<lambda>k. if k < 2 then SockRaise (OSError 11 ''EAGAIN'') else SockOk ([1 :: byte], ''client'')"
        1 "\<lambda>k. if k < 1 then SockRaise (OSError 11 ''EAGAIN'') else SockRaise (OSError 5 ''EIO'')" 0]
  by (simp add: eval_nat_numeral)

text \<open>
  A query for \<open>a.bc\<close> with id \<open>0xABCD\<close>, and a datagram of two bytes.
\<close>

theorem handle_dns_query_answer_witness:
  "decode_domain_name (\<lambda>bs. Inr (map (\<lambda>b. char_of (unat b)) bs))
     (drop 12 [0xAB, 0xCD, 0x01, 0x00, 0x00, 0x01, 0x00, 0x00, 0x00, 0x00, 0x00, 0x00,
               0x01, 0x61, 0x02, 0x62, 0x63, 0x00, 0x00, 0x01, 0x00, 0x01]) = Inr ''a.bc'' \<and>
   (\<lambda>ip. Inr [192, 168, 4, 1] :: exn + bytes) ''192.168.4.1'' = Inr [192, 168, 4, 1] \<and>
   snd (handle_dns_query (\<lambda>bs. Inr (map (\<lambda>b. char_of (unat b)) bs)) (\<lambda>ip. Inr [192, 168, 4, 1])
          ''192.168.4.1''
          [0xAB, 0xCD, 0x01, 0x00, 0x00, 0x01, 0x00, 0x00, 0x00, 0x00, 0x00, 0x00,
           0x01, 0x61, 0x02, 0x62, 0x63, 0x00, 0x00, 0x01, 0x00, 0x01]) =
     [0xAB, 0xCD, 0x81, 0x80, 0x00, 0x01, 0x00, 0x01, 0x00, 0x00, 0x00, 0x00,
      0x01, 0x61, 0x02, 0x62, 0x63, 0x00, 0x00, 0x01, 0x00, 0x01,
      0xC0, 0x0C, 0x00, 0x01, 0x00, 0x01, 0x00, 0x00, 0x00, 0x3C, 0x00, 0x04,
      192, 168, 4, 1] \<and>
   (\<exists>e. decode_domain_name (\<lambda>bs. Inr (map (\<lambda>b. char_of (unat b)) bs)) (drop 12 [0x01, 0x02]) = Inl e) \<and>
   snd (handle_dns_query (\<lambda>bs. Inr (map (\<lambda>b. char_of (unat b)) bs)) (\<lambda>ip. Inr [192, 168, 4, 1])
          ''192.168.4.1'' [0x01, 0x02]) = []"
proof -
  let ?dec = "\<lambda>bs :: bytes. Inr (map (\<lambda>b. char_of (unat b)) bs) :: exn + string"
  let ?aton = "\<lambda>ip :: string. Inr [192, 168, 4, 1] :: exn + bytes"
  let ?q = "[0xAB, 0xCD, 0x01, 0x00, 0x00, 0x01, 0x00, 0x00, 0x00, 0x00, 0x00, 0x00,
               0x01, 0x61, 0x02, 0x62, 0x63, 0x00, 0x00, 0x01, 0x00, 0x01] :: bytes"
  have d: "decode_domain_name ?dec (drop 12 ?q) = Inr ''a.bc''"
    by (simp add: decode_domain_name_def decode_labels.simps char_of_def bit_0)
  have f: "\<exists>e. decode_domain_name ?dec (drop 12 [0x01, 0x02]) = Inl e"
    by (simp add: decode_domain_name_def decode_labels.simps)
  from handle_dns_query_answer [of ?dec ?q ?aton "''192.168.4.1''"] d
  have r: "snd (handle_dns_query ?dec ?aton ''192.168.4.1'' ?q) =
     [0xAB, 0xCD, 0x81, 0x80, 0x00, 0x01, 0x00, 0x01, 0x00, 0x00, 0x00, 0x00,
      0x01, 0x61, 0x02, 0x62, 0x63, 0x00, 0x00, 0x01, 0x00, 0x01,
      0xC0, 0x0C, 0x00, 0x01, 0x00, 0x01, 0x00, 0x00, 0x00, 0x3C, 0x00, 0x04,
      192, 168, 4, 1]"
    by simp
  from handle_dns_query_answer [of ?dec "[0x01, 0x02]" ?aton "''192.168.4.1''"] f
  have e: "snd (handle_dns_query ?dec ?aton ''192.168.4.1'' [0x01, 0x02]) = []"
    by blast
  from d f r e show ?thesis by simp
qed

section \<open>Properties of the form decoding\<close>

lemma find_from_range:
  "find_from sub s k = - 1 \<or> int k \<le> find_from sub s k"
  by (induction s arbitrary: k) (auto, force)

lemma find_from_first:
  "find_from sub s k = int (k + i) \<Longrightarrow>
     prefix sub (drop i s) \<and> (\<forall>j<i. \<not> prefix sub (drop j s))"
proof (induction s arbitrary: k i)
  case Nil
  then show ?case by (auto split: if_splits)
next
  case (Cons c cs)
  show ?case
  proof (cases "prefix sub (c # cs)")
    case True
    with Cons.prems have "i = 0" by simp
    with True show ?thesis by simp
  next
    case False
    with Cons.prems have eq: "find_from sub cs (Suc k) = int (k + i)" by simp
    from find_from_range [of sub cs "Suc k"] eq have "0 < i" by (cases i) auto
    then obtain i' where i: "i = Suc i'" by (cases i) auto
    with eq have "find_from sub cs (Suc k) = int (Suc k + i')" by simp
    from Cons.IH [OF this]
    have ih: "prefix sub (drop i' cs)" "\<forall>j<i'. \<not> prefix sub (drop j cs)" by auto
    have "\<forall>j<Suc i'. \<not> prefix sub (drop j (c # cs))"
    proof (intro allI impI)
      fix j assume "j < Suc i'"
      then show "\<not> prefix sub (drop j (c # cs))"
        using False ih(2) by (cases j) auto
    qed
    with ih(1) i show ?thesis by simp
  qed
qed

lemma str_split_nonempty: "str_split sep s \<noteq> []"
  by (induction s) (auto split: list.splits)

lemma join_Cons_Cons: "join sep ((x # p) # ps) = x # join sep (p # ps)"
  by (cases ps) auto

lemma join_str_split: "join [sep] (str_split sep s) = s"
proof (induction s)
  case Nil
  then show ?case by simp
next
  case (Cons c cs)
  obtain p ps where ps: "str_split sep cs = p # ps"
    using str_split_nonempty [of sep cs] by (cases "str_split sep cs") auto
  with Cons show ?case by (auto simp: join_Cons_Cons)
qed

lemma str_split_no_sep: "p \<in> set (str_split sep s) \<Longrightarrow> sep \<notin> set p"
proof (induction s arbitrary: p)
  case Nil
  then show ?case by simp
next
  case (Cons c cs)
  obtain q qs where qs: "str_split sep cs = q # qs"
    using str_split_nonempty [of sep cs] by (cases "str_split sep cs") auto
  with Cons show ?case by (auto split: if_splits)
qed

lemma split_once_parts:
  assumes "sep \<in> set kv"
  shows "kv = fst (split_once sep kv) @ [sep] @ snd (split_once sep kv)"
    and "sep \<notin> set (fst (split_once sep kv))"
proof -
  let ?d = "dropWhile (\<lambda>c. c \<noteq> sep) kv"
  from assms have ne: "?d \<noteq> []" by (simp add: dropWhile_eq_Nil_conv)
  then have "hd ?d = sep" using hd_dropWhile [of "\<lambda>c. c \<noteq> sep" kv] by simp
  with ne have d: "?d = sep # drop 1 ?d" by (cases ?d) auto
  have "kv = takeWhile (\<lambda>c. c \<noteq> sep) kv @ ?d" by simp
  with d show "kv = fst (split_once sep kv) @ [sep] @ snd (split_once sep kv)"
    by (simp add: split_once_def)
  show "sep \<notin> set (fst (split_once sep kv))"
    by (auto simp: split_once_def dest: set_takeWhileD)
qed

lemma rep_hit:
  "old \<noteq> [] \<Longrightarrow> prefix old (c # cs) \<Longrightarrow>
     str_replace old new (c # cs) = new @ str_replace old new (drop (length old) (c # cs))"
  by simp

lemma rep_miss:
  "\<not> prefix old (c # cs) \<Longrightarrow> str_replace old new (c # cs) = c # str_replace old new cs"
  by simp

declare str_replace.simps(2) [simp del]

lemma replace_plus: "str_replace ''+'' '' '' v = map (\<lambda>c. if c = CHR ''+'' then CHR '' '' else c) v"
  by (induction v) (auto simp: str_replace.simps)

lemma replace_absent: "\<not> contains old s \<Longrightarrow> str_replace old new s = s"
  by (induction s) (auto simp: rep_miss)

lemma prefix_pct20_app:
  "\<not> contains ''%20'' (c # u) \<Longrightarrow> \<not> prefix ''%20'' (c # u @ ''%20'' @ rest)"
proof (cases u)
  case Nil
  then show ?thesis by auto
next
  case (Cons d u')
  assume a: "\<not> contains ''%20'' (c # u)"
  show ?thesis
  proof (cases u')
    case Nil
    with Cons show ?thesis by auto
  next
    case (Cons e u'')
    with \<open>u = d # u'\<close> a show ?thesis by auto
  qed
qed

lemma replace_pct20_step:
  "\<not> contains ''%20'' u \<Longrightarrow>
     str_replace ''%20'' '' '' (u @ ''%20'' @ rest) = u @ '' '' @ str_replace ''%20'' '' '' rest"
proof (induction u)
  case Nil
  have "str_replace ''%20'' '' '' (''%20'' @ rest)
      = '' '' @ str_replace ''%20'' '' '' (drop (length ''%20'') (''%20'' @ rest))"
    using rep_hit [of "''%20''" "CHR ''%''" "''20'' @ rest" "'' ''"] by simp
  then show ?case by simp
next
  case (Cons c u)
  from Cons.prems have np: "\<not> prefix ''%20'' (c # u @ ''%20'' @ rest)"
    by (rule prefix_pct20_app)
  from Cons.prems have "\<not> contains ''%20'' u" by simp
  then have ih: "str_replace ''%20'' '' '' (u @ ''%20'' @ rest) = u @ '' '' @ str_replace ''%20'' '' '' rest"
    by (rule Cons.IH)
  have "str_replace ''%20'' '' '' (c # u @ ''%20'' @ rest)
      = c # str_replace ''%20'' '' '' (u @ ''%20'' @ rest)"
    using np by (rule rep_miss)
  with ih show ?case by simp
qed

lemma rep_head:
  assumes "str_replace ''%20'' '' '' s = x # t" and "x \<noteq> CHR '' ''"
  shows "\<exists>cs. s = x # cs \<and> t = str_replace ''%20'' '' '' cs"
proof (cases s)
  case Nil
  with assms show ?thesis by simp
next
  case (Cons c cs)
  show ?thesis
  proof (cases "prefix ''%20'' (c # cs)")
    case True
    then have "str_replace ''%20'' '' '' (c # cs)
        = '' '' @ str_replace ''%20'' '' '' (drop (length ''%20'') (c # cs))"
      by (intro rep_hit) simp_all
    with assms Cons show ?thesis by simp
  next
    case False
    then have "str_replace ''%20'' '' '' (c # cs) = c # str_replace ''%20'' '' '' cs"
      by (rule rep_miss)
    with assms Cons show ?thesis by simp
  qed
qed

lemma rep_prefix_20:
  assumes "prefix ''20'' (str_replace ''%20'' '' '' cs)"
  shows "prefix ''20'' cs"
proof -
  from assms obtain t where t: "str_replace ''%20'' '' '' cs = CHR ''2'' # CHR ''0'' # t"
    by (auto simp: prefix_def)
  from rep_head [OF t] obtain ds where ds: "cs = CHR ''2'' # ds"
    and t2: "CHR ''0'' # t = str_replace ''%20'' '' '' ds" by auto
  from rep_head [OF t2 [symmetric]] obtain es where "ds = CHR ''0'' # es" by auto
  with ds show ?thesis by simp
qed

lemma replace_no_pct20: "\<not> contains ''%20'' (str_replace ''%20'' '' '' s)"
proof (induction s rule: length_induct)
  case (1 s)
  show ?case
  proof (cases s)
    case Nil
    then show ?thesis by simp
  next
    case (Cons c cs)
    show ?thesis
    proof (cases "prefix ''%20'' (c # cs)")
      case True
      then obtain r where r: "c # cs = ''%20'' @ r" by (auto simp: prefix_def)
      then have "length s = length r + 3" using Cons by (metis add.commute length_append list.size(3,4) numeral_3_eq_3 One_nat_def add_Suc_right Suc_eq_plus1)
      then have "length r < length s" by simp
      with 1 have ih: "\<not> contains ''%20'' (str_replace ''%20'' '' '' r)" by blast
      have "str_replace ''%20'' '' '' (c # cs)
          = '' '' @ str_replace ''%20'' '' '' (drop (length ''%20'') (c # cs))"
        using True by (intro rep_hit) simp_all
      then have "str_replace ''%20'' '' '' s = '' '' @ str_replace ''%20'' '' '' r"
        using Cons r by simp
      with ih show ?thesis by simp
    next
      case False
      have "length cs < length s" using Cons by simp
      with 1 have ih: "\<not> contains ''%20'' (str_replace ''%20'' '' '' cs)" by blast
      have eq: "str_replace ''%20'' '' '' s = c # str_replace ''%20'' '' '' cs"
        using Cons rep_miss [OF False] by simp
      have "\<not> prefix ''%20'' (c # str_replace ''%20'' '' '' cs)"
      proof
        assume p: "prefix ''%20'' (c # str_replace ''%20'' '' '' cs)"
        have split: "prefix ''%20'' (c # X) \<Longrightarrow> c = CHR ''%'' \<and> prefix ''20'' X" for X
          by simp
        from split [OF p] have c: "c = CHR ''%''"
          and p20: "prefix ''20'' (str_replace ''%20'' '' '' cs)" by blast+
        from p20 have "prefix ''20'' cs" by (rule rep_prefix_20)
        with c False show False by simp
      qed
      with ih eq show ?thesis by simp
    qed
  qed
qed

lemma replace_keeps_absent:
  "x \<notin> set s \<Longrightarrow> x \<notin> set new \<Longrightarrow> x \<notin> set (str_replace old new s)"
proof (induction s rule: length_induct)
  case (1 s)
  show ?case
  proof (cases s)
    case Nil
    then show ?thesis by simp
  next
    case (Cons c cs)
    show ?thesis
    proof (cases "old \<noteq> [] \<and> prefix old (c # cs)")
      case True
      let ?r = "drop (length old) (c # cs)"
      from True have "length ?r < length s" using Cons by (cases old) auto
      moreover have "x \<notin> set ?r" using "1.prems"(1) Cons by (auto dest: in_set_dropD)
      ultimately have "x \<notin> set (str_replace old new ?r)" using 1 by blast
      with True Cons "1.prems"(2) show ?thesis by (simp add: str_replace.simps)
    next
      case False
      have "length cs < length s" using Cons by simp
      moreover have "x \<notin> set cs" using "1.prems"(1) Cons by simp
      ultimately have "x \<notin> set (str_replace old new cs)" using 1 by blast
      with False Cons "1.prems"(1) show ?thesis by (auto simp: str_replace.simps)
    qed
  qed
qed

lemma decode_value_no_plus: "CHR ''+'' \<notin> set (decode_value v)"
proof -
  have "CHR ''+'' \<notin> set (str_replace ''+'' '' '' v)" by (auto simp: replace_plus)
  then show ?thesis unfolding decode_value_def by (rule replace_keeps_absent) simp
qed

lemma form_body_found:
  assumes "str_find (CR @ NL @ CR @ NL) request = int i"
  shows "form_body request = drop (i + 4) request"
    and "prefix (CR @ NL @ CR @ NL) (drop i request)"
    and "\<forall>j<i. \<not> prefix (CR @ NL @ CR @ NL) (drop j request)"
proof -
  from assms have f: "find_from (CR @ NL @ CR @ NL) request 0 = int (0 + i)"
    by (simp add: str_find_def)
  from find_from_first [OF f]
  show "prefix (CR @ NL @ CR @ NL) (drop i request)"
    and "\<forall>j<i. \<not> prefix (CR @ NL @ CR @ NL) (drop j request)" by blast+
  have "nat (int i + 4) = i + 4" by simp
  with assms show "form_body request = drop (i + 4) request"
    by (simp add: form_body_def Let_def)
qed

lemma parse_pairs_step:
  "CHR ''='' \<in> set kv \<Longrightarrow>
     parse_pairs (kv # kvs) params =
       parse_pairs kvs (params(fst (split_once CHR ''='' kv) \<mapsto>
                               decode_value (snd (split_once CHR ''='' kv))))"
  by (simp add: case_prod_beta)

lemma example_params:
  "params_get (form_params (''POST /connect HTTP/1.1'' @ CR @ NL @ CR @ NL @
                            ''ssid=My+Wifi&password=pa%20ss'')) ''ssid'' = ''My Wifi''"
  "params_get (form_params (''POST /connect HTTP/1.1'' @ CR @ NL @ CR @ NL @
                            ''ssid=My+Wifi&password=pa%20ss'')) ''password'' = ''pa ss''"
  by (simp_all add: params_get_def form_params_def form_body_def str_find_def split_once_def
        decode_value_def str_replace.simps)

lemma form_body_absent:
  "str_find (CR @ NL @ CR @ NL) request = - 1 \<Longrightarrow> form_body request = drop 3 request"
  by (simp add: form_body_def Let_def)

lemma find_from_absent: "find_from sub s k = - 1 \<Longrightarrow> \<not> contains sub s"
  by (induction s arbitrary: k) (auto split: if_splits)

lemma find_from_cases: "find_from sub s k = - 1 \<or> (\<exists>i. find_from sub s k = int i)"
  by (induction s arbitrary: k) auto

text \<open>
  Claim C7. The body is what follows the first \<^verbatim>\<open>\r\n\r\n\<close> of the request (and the
  request without its first three characters when it has none). The parameters are the
  result of the loop over the pieces of the body split on \<^verbatim>\<open>&\<close>, started with the empty
  dictionary, and a field is read from them with the default \<^verbatim>\<open>""\<close>. Splitting on \<^verbatim>\<open>&\<close>
  gives pieces without \<^verbatim>\<open>&\<close> that joined by \<^verbatim>\<open>&\<close> are the body again. A piece with an
  \<^verbatim>\<open>=\<close> is cut at its first \<^verbatim>\<open>=\<close> and stores the decoded value under the key; a piece
  without one is skipped. Decoding a value turns every \<^verbatim>\<open>+\<close> into a space, then replaces
  the occurrences of \<^verbatim>\<open>%20\<close> from the left by a space; the result holds no \<^verbatim>\<open>+\<close> and no
  \<^verbatim>\<open>%20\<close>, and a value with neither, whatever other escapes it has, is left as it is.
  The body \<^verbatim>\<open>ssid=My+Wifi&password=pa%20ss\<close> gives \<^verbatim>\<open>My Wifi\<close> and \<^verbatim>\<open>pa ss\<close>.
\<close>

theorem form_decoding:
  "(\<forall>i. str_find (CR @ NL @ CR @ NL) request = int i \<longrightarrow>
        form_body request = drop (i + 4) request \<and>
        prefix (CR @ NL @ CR @ NL) (drop i request) \<and>
        (\<forall>j<i. \<not> prefix (CR @ NL @ CR @ NL) (drop j request))) \<and>
   (str_find (CR @ NL @ CR @ NL) request' = - 1 \<longrightarrow>
        form_body request' = drop 3 request' \<and> \<not> contains (CR @ NL @ CR @ NL) request') \<and>
   (str_find (CR @ NL @ CR @ NL) request = - 1 \<or>
    (\<exists>i. str_find (CR @ NL @ CR @ NL) request = int i)) \<and>
   form_params request = parse_pairs (str_split CHR ''&'' (form_body request)) Map.empty \<and>
   params_get params key = (case params key of None \<Rightarrow> [] | Some x \<Rightarrow> x) \<and>
   join ''&'' (str_split CHR ''&'' body) = body \<and>
   (\<forall>p \<in> set (str_split CHR ''&'' body). CHR ''&'' \<notin> set p) \<and>
   parse_pairs [] params = params \<and>
   (CHR ''='' \<in> set kv \<longrightarrow>
        kv = fst (split_once CHR ''='' kv) @ ''='' @ snd (split_once CHR ''='' kv) \<and>
        CHR ''='' \<notin> set (fst (split_once CHR ''='' kv)) \<and>
        parse_pairs (kv # kvs) params =
          parse_pairs kvs (params(fst (split_once CHR ''='' kv) \<mapsto>
                                  decode_value (snd (split_once CHR ''='' kv))))) \<and>
   (CHR ''='' \<notin> set kv' \<longrightarrow> parse_pairs (kv' # kvs) params = parse_pairs kvs params) \<and>
   decode_value v =
     str_replace ''%20'' '' '' (map (\<lambda>c. if c = CHR ''+'' then CHR '' '' else c) v) \<and>
   (\<not> contains ''%20'' u \<longrightarrow>
        str_replace ''%20'' '' '' (u @ ''%20'' @ rest) = u @ '' '' @ str_replace ''%20'' '' '' rest \<and>
        str_replace ''%20'' '' '' u = u) \<and>
   CHR ''+'' \<notin> set (decode_value v) \<and>
   \<not> contains ''%20'' (decode_value v) \<and>
   (CHR ''+'' \<notin> set v' \<and> \<not> contains ''%20'' v' \<longrightarrow> decode_value v' = v') \<and>
   params_get (form_params (''POST /connect HTTP/1.1'' @ CR @ NL @ CR @ NL @
                            ''ssid=My+Wifi&password=pa%20ss'')) ''ssid'' = ''My Wifi'' \<and>
   params_get (form_params (''POST /connect HTTP/1.1'' @ CR @ NL @ CR @ NL @
                            ''ssid=My+Wifi&password=pa%20ss'')) ''password'' = ''pa ss''"
proof -
  have a: "\<forall>i. str_find (CR @ NL @ CR @ NL) request = int i \<longrightarrow>
        form_body request = drop (i + 4) request \<and>
        prefix (CR @ NL @ CR @ NL) (drop i request) \<and>
        (\<forall>j<i. \<not> prefix (CR @ NL @ CR @ NL) (drop j request))"
    using form_body_found by blast
  have a2: "str_find (CR @ NL @ CR @ NL) request' = - 1 \<longrightarrow>
        form_body request' = drop 3 request' \<and> \<not> contains (CR @ NL @ CR @ NL) request'"
    using form_body_absent [of request'] find_from_absent [of "CR @ NL @ CR @ NL" request' 0]
    unfolding str_find_def by blast
  have a5: "str_find (CR @ NL @ CR @ NL) request = - 1 \<or>
    (\<exists>i. str_find (CR @ NL @ CR @ NL) request = int i)"
    unfolding str_find_def by (rule find_from_cases)
  have a3: "form_params request = parse_pairs (str_split CHR ''&'' (form_body request)) Map.empty"
    by (simp only: form_params_def)
  have a4: "params_get params key = (case params key of None \<Rightarrow> [] | Some x \<Rightarrow> x)"
    by (simp only: params_get_def)
  have b: "join ''&'' (str_split CHR ''&'' body) = body"
    by (rule join_str_split)
  have c: "\<forall>p \<in> set (str_split CHR ''&'' body). CHR ''&'' \<notin> set p"
    using str_split_no_sep by blast
  have c2: "parse_pairs [] params = params" by simp
  have d: "CHR ''='' \<in> set kv \<longrightarrow>
        kv = fst (split_once CHR ''='' kv) @ ''='' @ snd (split_once CHR ''='' kv) \<and>
        CHR ''='' \<notin> set (fst (split_once CHR ''='' kv)) \<and>
        parse_pairs (kv # kvs) params =
          parse_pairs kvs (params(fst (split_once CHR ''='' kv) \<mapsto>
                                  decode_value (snd (split_once CHR ''='' kv))))"
    using split_once_parts [of "CHR ''=''" kv] parse_pairs_step [of kv kvs params] by blast
  have e: "CHR ''='' \<notin> set kv' \<longrightarrow> parse_pairs (kv' # kvs) params = parse_pairs kvs params"
    by simp
  have f: "decode_value v =
     str_replace ''%20'' '' '' (map (\<lambda>c. if c = CHR ''+'' then CHR '' '' else c) v)"
    by (simp only: decode_value_def replace_plus)
  have g: "\<not> contains ''%20'' u \<longrightarrow>
        str_replace ''%20'' '' '' (u @ ''%20'' @ rest) = u @ '' '' @ str_replace ''%20'' '' '' rest \<and>
        str_replace ''%20'' '' '' u = u"
    using replace_pct20_step [of u rest] replace_absent [of "''%20''" u "'' ''"] by blast
  have h: "CHR ''+'' \<notin> set (decode_value v)"
    by (rule decode_value_no_plus)
  have i: "\<not> contains ''%20'' (decode_value v)"
    unfolding decode_value_def by (rule replace_no_pct20)
  have j: "CHR ''+'' \<notin> set v' \<and> \<not> contains ''%20'' v' \<longrightarrow> decode_value v' = v'"
  proof
    assume "CHR ''+'' \<notin> set v' \<and> \<not> contains ''%20'' v'"
    then have "map (\<lambda>c. if c = CHR ''+'' then CHR '' '' else c) v' = v'"
      and "\<not> contains ''%20'' v'" by (auto intro!: map_idI)
    then show "decode_value v' = v'"
      by (simp add: decode_value_def replace_plus replace_absent)
  qed
  show ?thesis
    by (intro conjI a a2 a5 a3 a4 b c c2 d e f g h i j example_params)
qed

text \<open>
  The request of the example, a request without a blank line, a piece without \<^verbatim>\<open>=\<close>, and
  a value with the escapes \<^verbatim>\<open>%2B\<close> and \<^verbatim>\<open>%21\<close>.
\<close>

theorem form_decoding_witness:
  "str_find (CR @ NL @ CR @ NL)
     (''POST /connect HTTP/1.1'' @ CR @ NL @ CR @ NL @ ''ssid=My+Wifi&password=pa%20ss'') = 22 \<and>
   form_body (''POST /connect HTTP/1.1'' @ CR @ NL @ CR @ NL @ ''ssid=My+Wifi&password=pa%20ss'')
     = ''ssid=My+Wifi&password=pa%20ss'' \<and>
   str_find (CR @ NL @ CR @ NL) ''GET /x'' = - 1 \<and>
   form_body ''GET /x'' = '' /x'' \<and>
   form_params (''POST /connect HTTP/1.1'' @ CR @ NL @ CR @ NL @ ''ssid=My+Wifi&password=pa%20ss'')
     = [''ssid'' \<mapsto> ''My Wifi'', ''password'' \<mapsto> ''pa ss''] \<and>
   str_split CHR ''&'' ''ssid=My+Wifi&password=pa%20ss'' = [''ssid=My+Wifi'', ''password=pa%20ss''] \<and>
   CHR ''='' \<in> set ''password=pa%20ss'' \<and>
   ''password=pa%20ss'' = fst (split_once CHR ''='' ''password=pa%20ss'') @ ''='' @
                           snd (split_once CHR ''='' ''password=pa%20ss'') \<and>
   parse_pairs [''password=pa%20ss''] Map.empty ''password'' = Some ''pa ss'' \<and>
   CHR ''='' \<notin> set ''junk'' \<and>
   parse_pairs [''junk''] Map.empty = Map.empty \<and>
   \<not> contains ''%20'' ''pa'' \<and>
   str_replace ''%20'' '' '' (''pa'' @ ''%20'' @ ''ss'') = ''pa ss'' \<and>
   CHR ''+'' \<notin> set ''a%2Bb%21'' \<and> \<not> contains ''%20'' ''a%2Bb%21'' \<and>
   decode_value ''a%2Bb%21'' = ''a%2Bb%21''"
  using form_decoding
    [where request = "''POST /connect HTTP/1.1'' @ CR @ NL @ CR @ NL @ ''ssid=My+Wifi&password=pa%20ss''"
       and request' = "''GET /x''"
       and body = "''ssid=My+Wifi&password=pa%20ss''"
       and kv = "''password=pa%20ss''" and kvs = "[]" and params = Map.empty
       and kv' = "''junk''" and v = "''pa%20ss''" and u = "''pa''" and rest = "''ss''"
       and v' = "''a%2Bb%21''" and key = "''ssid''"]
  by (simp add: str_find_def form_body_def split_once_def decode_value_def str_replace.simps)

section \<open>Properties of the access point and the portal\<close>

text \<open>
  Claim C4. With an access-point password of fewer than 8 characters \<^verbatim>\<open>start_ap\<close> returns
  without raising, prints its message and changes nothing else: no call is made on the
  interface, and its configuration, its activity and the stored IP address are as before.
\<close>

theorem start_ap_short_password:
  "length (ap_password st) < 8 \<Longrightarrow>
     start_ap env st w =
       (Inr (), w\<lparr>console := console w @ [''Password must be at least 8 characters long.'']\<rparr>)"
  by (simp add: start_ap_def print_def modify_def)

text \<open>A manager built with the password \<^verbatim>\<open>short\<close>.\<close>

theorem start_ap_short_password_witness:
  "length (ap_password (init ''Goat'' ''short'' ''PicoW'' False)) < 8 \<and>
   start_ap calm (init ''Goat'' ''short'' ''PicoW'' False) boot =
     (Inr (), boot\<lparr>console := [''Password must be at least 8 characters long.'']\<rparr>)"
  using start_ap_short_password [of "init ''Goat'' ''short'' ''PicoW'' False" calm boot]
  by (simp add: init_def boot_def)

lemma page_plain:
  "\<not> contains reconnect_form (html_template (init a b c d) title (index_welcome @ index_connect))"
  by (simp add: reconnect_form_def html_template_def init_def title_def index_welcome_def
        index_connect_def scan_link_def)

lemma page_with_form:
  "contains reconnect_form
     (html_template (init a b c d) title (index_welcome @ index_reconnect @ index_connect))"
  by (simp add: reconnect_form_def html_template_def init_def title_def index_welcome_def
        index_connect_def index_reconnect_def scan_link_def)

lemma page_scan_link:
  "contains scan_link (html_template (init a b c d) title (index_welcome @ index_connect))"
  "contains scan_link
     (html_template (init a b c d) title (index_welcome @ index_reconnect @ index_connect))"
  by (simp_all add: reconnect_form_def html_template_def init_def title_def index_welcome_def
        index_connect_def index_reconnect_def scan_link_def)

lemma serve_index_eval:
  "serve_index env st w =
     (case raises env (trace w) (Listdir (config_directory st)) of
        Some e \<Rightarrow> (Inl e, w\<lparr>trace := trace w @ [Listdir (config_directory st)]\<rparr>)
      | None \<Rightarrow>
          (Inr (html_template st title
                  (index_welcome @
                   (if config_file st \<in> set (listing env (trace w)) then index_reconnect else []) @
                   index_connect)),
           w\<lparr>trace := trace w @ [Listdir (config_directory st)]\<rparr>))"
  by (simp add: serve_index_def listdir_def ext_def bnd_def ret_def Let_def split: option.splits)

lemma init_fields:
  "config_directory (init a b c d) = ''/config''"
  "config_file (init a b c d) = ''network_config.conf''"
  by (simp_all add: init_def)

text \<open>
  Claim C9, as amended. When listing the configuration directory does not raise,
  \<^verbatim>\<open>serve_index\<close> returns the index page; the page has the link to \<^verbatim>\<open>/scan\<close>, and it has the
  form that posts to \<^verbatim>\<open>/reconnect\<close> exactly when the listing holds the name of the
  configuration file. When the listing raises, \<^verbatim>\<open>serve_index\<close> raises the same exception
  and returns no page.
\<close>

theorem serve_index_page:
  "(raises env (trace w) (Listdir ''/config'') = None \<longrightarrow>
      fst (serve_index env (init a b c d) w) =
        Inr (html_template (init a b c d) title
               (index_welcome @
                (if ''network_config.conf'' \<in> set (listing env (trace w))
                 then index_reconnect else []) @
                index_connect)) \<and>
      (\<forall>page. fst (serve_index env (init a b c d) w) = Inr page \<longrightarrow>
         contains scan_link page \<and>
         (contains reconnect_form page \<longleftrightarrow>
            ''network_config.conf'' \<in> set (listing env (trace w))))) \<and>
   (\<forall>e. raises env (trace w) (Listdir ''/config'') = Some e \<longrightarrow>
      fst (serve_index env (init a b c d) w) = Inl e)"
proof (intro conjI impI allI)
  assume ok: "raises env (trace w) (Listdir ''/config'') = None"
  then show eq: "fst (serve_index env (init a b c d) w) =
        Inr (html_template (init a b c d) title
               (index_welcome @
                (if ''network_config.conf'' \<in> set (listing env (trace w))
                 then index_reconnect else []) @
                index_connect))"
    by (simp add: serve_index_eval init_fields)
  fix page
  assume "fst (serve_index env (init a b c d) w) = Inr page"
  with eq have page: "page = html_template (init a b c d) title
               (index_welcome @
                (if ''network_config.conf'' \<in> set (listing env (trace w))
                 then index_reconnect else []) @
                index_connect)" by simp
  show "contains scan_link page"
    unfolding page using page_scan_link [of a b c d] by (simp split: if_splits)
  show "contains reconnect_form page \<longleftrightarrow> ''network_config.conf'' \<in> set (listing env (trace w))"
    unfolding page using page_plain [of a b c d] page_with_form [of a b c d]
    by (simp split: if_splits)
next
  fix e
  assume "raises env (trace w) (Listdir ''/config'') = Some e"
  then show "fst (serve_index env (init a b c d) w) = Inl e"
    by (simp add: serve_index_eval init_fields)
qed

text \<open>
  A directory that holds the configuration file, and a file system on which every call
  raises.
\<close>

theorem serve_index_page_witness:
  "raises (calm\<lparr>listing := \<lambda>t. [''network_config.conf'']\<rparr>) (trace boot) (Listdir ''/config'') = None \<and>
   fst (serve_index (calm\<lparr>listing := \<lambda>t. [''network_config.conf'']\<rparr>) default_settings boot) =
     Inr (html_template default_settings title (index_welcome @ index_reconnect @ index_connect)) \<and>
   contains scan_link
     (html_template default_settings title (index_welcome @ index_reconnect @ index_connect)) \<and>
   contains reconnect_form
     (html_template default_settings title (index_welcome @ index_reconnect @ index_connect)) \<and>
   ''network_config.conf'' \<in> set (listing (calm\<lparr>listing := \<lambda>t. [''network_config.conf'']\<rparr>) (trace boot)) \<and>
   raises (calm\<lparr>raises := \<lambda>t c. Some (OSError 2 ''ENOENT'')\<rparr>) (trace boot) (Listdir ''/config'')
     = Some (OSError 2 ''ENOENT'') \<and>
   fst (serve_index (calm\<lparr>raises := \<lambda>t c. Some (OSError 2 ''ENOENT'')\<rparr>) default_settings boot)
     = Inl (OSError 2 ''ENOENT'')"
  using serve_index_page [of "calm\<lparr>listing := \<lambda>t. [''network_config.conf'']\<rparr>" boot
          "''Goat - Captive Portal''" "''password''" "''PicoW''" False]
        serve_index_page [of "calm\<lparr>raises := \<lambda>t c. Some (OSError 2 ''ENOENT'')\<rparr>" boot
          "''Goat - Captive Portal''" "''password''" "''PicoW''" False]
  by (simp add: calm_def default_settings_def)

text \<open>
  Claim C9 as stated fails: with no configuration directory, \<^verbatim>\<open>uos.listdir\<close> raises and
  \<^verbatim>\<open>serve_index\<close> returns no page.
\<close>

theorem serve_index_raises_counterexample:
  "fst (serve_index (calm\<lparr>raises := \<lambda>t c. if c = Listdir ''/config''
                                           then Some (OSError 2 ''ENOENT'') else None\<rparr>)
          default_settings boot)
     = Inl (OSError 2 ''ENOENT'')"
  by (simp add: serve_index_eval calm_def default_settings_def init_fields)

text \<open>
  Whatever the environment, a request that reaches the branch for \<^verbatim>\<open>POST /reconnect\<close>
  raises TypeError there, before \<^verbatim>\<open>reconnect_to_wifi\<close> runs.
\<close>

lemma route_reconnect_raises:
  assumes "\<not> contains ''GET /generate_204'' request"
    and "\<not> contains ''GET /connectivity-check'' request"
    and "\<not> contains ''GET /hotspot-detect.html'' request"
    and "\<not> contains ''GET /success.conf'' request"
    and "\<not> contains ''GET /ncsi.conf'' request"
    and "\<not> contains ''GET /scan'' request"
    and "\<not> contains ''POST /connect'' request"
    and "contains ''POST /reconnect'' request"
  shows "\<exists>e. route env st request w = (Inl (TypeError e), w)"
  using assms by (simp add: route_def call1_def bnd_def raise_def)

lemma request_roundtrip:
  "bytes_decode calm (take 1024 (encode reconnect_request)) = Inr reconnect_request"
  by (simp add: reconnect_request_def calm_def encode_def encode_char_def char_of_def bit_0)

text \<open>
  Claim C5 fails on the code. For the request \<^verbatim>\<open>POST /reconnect HTTP/1.1\<close>, with nothing
  raising outside the module, \<^verbatim>\<open>handle_request\<close> reads the request, prints the TypeError
  of the call \<^verbatim>\<open>self.reconnect_to_wifi()\<close> and closes the writer: it writes no response.
\<close>

theorem reconnect_route_writes_nothing:
  "handle_request calm default_settings (encode reconnect_request) boot =
     (Inr (),
      boot\<lparr>console := [''Request: '' @ reconnect_request,
                         ''Error handling request: function takes 2 positional arguments but 1 were given''],
           trace := [ReaderRead 1024, WriterClose, WriterWaitClosed]\<rparr>)"
proof -
  have r: "route calm default_settings reconnect_request =
       raise (TypeError ''function takes 2 positional arguments but 1 were given'')"
    by (simp add: reconnect_request_def route_def call1_def bnd_def raise_def digit_def
          show_nat.simps char_of_def bit_0)
  have d: "decode calm (take 1024 (encode reconnect_request)) = ret reconnect_request"
    by (simp add: decode_def request_roundtrip)
  have rd: "reader_read calm 1024 raw =
       (\<lambda>w. (Inr (take 1024 raw), w\<lparr>trace := trace w @ [ReaderRead 1024]\<rparr>))" for raw
    by (simp add: reader_read_def ext_def calm_def)
  have wc: "writer_close calm = (\<lambda>w. (Inr (), w\<lparr>trace := trace w @ [WriterClose]\<rparr>))"
    by (simp add: writer_close_def ext_def calm_def)
  have ww: "writer_wait_closed calm =
       (\<lambda>w. (Inr (), w\<lparr>trace := trace w @ [WriterWaitClosed]\<rparr>))"
    by (simp add: writer_wait_closed_def ext_def calm_def)
  show ?thesis
    unfolding handle_request_def rd wc ww
    by (simp add: try_finally_def try_except_def bnd_def thn_def d r
          ret_def raise_def print_def modify_def boot_def)
qed

section \<open>Properties of the connect action\<close>

lemma emits_pure: "(\<And>w. trace (snd (m w)) = trace w) \<Longrightarrow> emits P m"
  by (simp add: emits_def)

named_theorems emits_intros

lemma emits_basic [emits_intros]:
  "emits P (ret x)" "emits P (get f)" "emits P (print s)"
  by (simp_all add: emits_pure ret_def get_def print_def modify_def)



lemma emits_bnd [emits_intros]:
  assumes m: "emits P m" and f: "\<And>x. emits P (f x)"
  shows "emits P (bnd m f)"
  unfolding emits_def
proof
  fix w
  obtain r w1 where mw: "m w = (r, w1)" by (cases "m w")
  from m mw obtain t1 where t1: "trace w1 = trace w @ t1" "list_all P t1"
    by (auto simp: emits_def dest: spec [of _ w])
  show "\<exists>t. trace (snd (bnd m f w)) = trace w @ t \<and> list_all P t"
  proof (cases r)
    case (Inl e)
    with mw t1 show ?thesis by (simp add: bnd_def)
  next
    case (Inr x)
    from f [of x] obtain t2 where "trace (snd (f x w1)) = trace w1 @ t2" "list_all P t2"
      by (auto simp: emits_def dest: spec [of _ w1])
    with mw Inr t1 show ?thesis by (intro exI [of _ "t1 @ t2"]) (simp add: bnd_def)
  qed
qed

lemma emits_thn [emits_intros]: "emits P m \<Longrightarrow> emits P n \<Longrightarrow> emits P (thn m n)"
  by (simp add: thn_def emits_bnd)

lemma emits_seqs [emits_intros]: "(\<And>m. m \<in> set ms \<Longrightarrow> emits P m) \<Longrightarrow> emits P (seqs ms)"
  by (induction ms) (auto intro: emits_intros)

lemma emits_cond [emits_intros]: "emits P m \<Longrightarrow> emits P (cond b m)"
  by (simp add: cond_def emits_basic)

lemma emits_case_option [emits_intros]:
  "emits P a \<Longrightarrow> (\<And>x. emits P (b x)) \<Longrightarrow> emits P (case v of None \<Rightarrow> a | Some x \<Rightarrow> b x)"
  by (cases v) simp_all

lemma emits_if [emits_intros]: "emits P a \<Longrightarrow> emits P b \<Longrightarrow> emits P (if c then a else b)"
  by simp

lemma emits_try_except [emits_intros]:
  assumes m: "emits P m" and h: "\<And>e. emits P (h e)"
  shows "emits P (try_except m h)"
  unfolding emits_def
proof
  fix w
  obtain r w1 where mw: "m w = (r, w1)" by (cases "m w")
  from m mw obtain t1 where t1: "trace w1 = trace w @ t1" "list_all P t1"
    by (auto simp: emits_def dest: spec [of _ w])
  show "\<exists>t. trace (snd (try_except m h w)) = trace w @ t \<and> list_all P t"
  proof (cases r)
    case (Inr x)
    with mw t1 show ?thesis by (simp add: try_except_def)
  next
    case (Inl e)
    from h [of e] obtain t2 where "trace (snd (h e w1)) = trace w1 @ t2" "list_all P t2"
      by (auto simp: emits_def dest: spec [of _ w1])
    with mw Inl t1 show ?thesis by (intro exI [of _ "t1 @ t2"]) (simp add: try_except_def)
  qed
qed
















section \<open>Properties of the request handler\<close>

named_theorems ext_intros

lemma extends_ret [ext_intros]: "extends (ret x)"
  by (simp add: extends_def ret_def)

lemma extends_raise [ext_intros]: "extends (raise e)"
  by (simp add: extends_def raise_def)

lemma extends_get [ext_intros]: "extends (get f)"
  by (simp add: extends_def get_def)

lemma extends_modify: "(\<And>w. trace (f w) = trace w) \<Longrightarrow> extends (modify f)"
  by (simp add: extends_def modify_def)

lemma extends_print [ext_intros]: "extends (print s)"
  by (simp add: print_def extends_modify)

lemma extends_ext: "(\<And>w. trace (eff w) = trace w) \<Longrightarrow> extends (ext env c val eff)"
  by (auto simp: extends_def ext_def Let_def split: option.splits)

lemma extends_bnd [ext_intros]:
  assumes "extends m" and "\<And>x. extends (f x)"
  shows "extends (bnd m f)"
  unfolding extends_def
proof
  fix w
  obtain r w' where m: "m w = (r, w')" by (cases "m w")
  from assms(1) m have p: "prefix (trace w) (trace w')" by (auto simp: extends_def dest: spec [of _ w])
  show "prefix (trace w) (trace (snd (bnd m f w)))"
  proof (cases r)
    case (Inl e)
    with m p show ?thesis by (simp add: bnd_def)
  next
    case (Inr x)
    from assms(2) [of x] have "prefix (trace w') (trace (snd (f x w')))"
      by (simp add: extends_def)
    with p m Inr show ?thesis by (auto simp: bnd_def)
  qed
qed

lemma extends_thn [ext_intros]: "extends m \<Longrightarrow> extends n \<Longrightarrow> extends (thn m n)"
  by (simp add: thn_def extends_bnd)

lemma extends_seqs [ext_intros]: "(\<And>m. m \<in> set ms \<Longrightarrow> extends m) \<Longrightarrow> extends (seqs ms)"
  by (induction ms) (auto intro: ext_intros)

lemma extends_cond [ext_intros]: "extends m \<Longrightarrow> extends (cond b m)"
  by (simp add: cond_def extends_ret)

lemma extends_try_except [ext_intros]:
  assumes "extends m" and "\<And>e. extends (h e)"
  shows "extends (try_except m h)"
  unfolding extends_def
proof
  fix w
  obtain r w' where m: "m w = (r, w')" by (cases "m w")
  from assms(1) m have p: "prefix (trace w) (trace w')" by (auto simp: extends_def dest: spec [of _ w])
  show "prefix (trace w) (trace (snd (try_except m h w)))"
  proof (cases r)
    case (Inr x)
    with m p show ?thesis by (simp add: try_except_def)
  next
    case (Inl e)
    from assms(2) [of e] have "prefix (trace w') (trace (snd (h e w')))"
      by (simp add: extends_def)
    with p m Inl show ?thesis by (auto simp: try_except_def)
  qed
qed

lemma extends_try_finally [ext_intros]:
  assumes "extends m" and "extends fin"
  shows "extends (try_finally m fin)"
  unfolding extends_def
proof
  fix w
  obtain r w' where m: "m w = (r, w')" by (cases "m w")
  from assms(1) m have p: "prefix (trace w) (trace w')" by (auto simp: extends_def dest: spec [of _ w])
  from assms(2) have "prefix (trace w') (trace (snd (fin w')))" by (simp add: extends_def)
  with p have "prefix (trace w) (trace (snd (fin w')))" by auto
  with m show "prefix (trace w) (trace (snd (try_finally m fin w)))"
    by (auto simp: try_finally_def split: prod.splits sum.splits)
qed

lemma trace_sleep [simp]: "trace (sleep env d w) = trace w"
  by (simp add: sleep_def)

lemma trace_poll [simp]: "trace (poll env timeout w) = trace w"
proof (induction env timeout w rule: poll.induct)
  case (1 env timeout w)
  show ?case
  proof (cases "\<not> sta_connected w \<and> utime_time w < timeout")
    case True
    then have "poll env timeout w = poll env timeout (sleep env 5 w)"
      by (subst poll.simps) simp
    with True "1.IH" show ?thesis by simp
  next
    case False
    then have "poll env timeout w = w" by (subst poll.simps) auto
    then show ?thesis by simp
  qed
qed

lemma extends_prims [ext_intros]:
  "extends (sta_set_active env b)"
  "extends (sta_connect env ssid password)"
  "extends (sta_ifconfig env)"
  "extends (sta_scan env)"
  "extends (sta_deinit env)"
  "extends (ap_config env essid key)"
  "extends (ap_set_active env b)"
  "extends (ap_ifconfig_set env cfg)"
  "extends (ap_ifconfig env)"
  "extends (ap_deinit env)"
  "extends (set_hostname env h)"
  "extends (listdir env d)"
  "extends (config_open env d f)"
  "extends (config_read env)"
  "extends (config_get env section k)"
  "extends (config_set env section k v)"
  "extends (config_write env)"
  "extends (start_server env ip port)"
  "extends (server_close env srv)"
  "extends (server_wait_closed env srv)"
  "extends (app_run env)"
  "extends (app_stop env)"
  "extends (reader_read env n raw)"
  "extends (writer_write env bs)"
  "extends (writer_drain env)"
  "extends (writer_close env)"
  "extends (writer_wait_closed env)"
  "extends (decode env bs)"
  "extends (wait_for_link env seconds)"
  by (auto simp: sta_set_active_def sta_connect_def sta_ifconfig_def sta_scan_def sta_deinit_def
        ap_config_def ap_set_active_def ap_ifconfig_set_def ap_ifconfig_def ap_deinit_def
        set_hostname_def listdir_def config_open_def config_read_def config_get_def
        config_set_def config_write_def start_server_def server_close_def
        server_wait_closed_def app_run_def app_stop_def reader_read_def writer_write_def
        writer_drain_def writer_close_def writer_wait_closed_def decode_def wait_for_link_def
        split: prod.splits sum.splits
        intro!: extends_ext extends_modify ext_intros)

lemma extends_if [ext_intros]: "extends a \<Longrightarrow> extends b \<Longrightarrow> extends (if c then a else b)"
  by simp

lemma extends_case_option [ext_intros]:
  "extends a \<Longrightarrow> (\<And>x. extends (b x)) \<Longrightarrow> extends (case v of None \<Rightarrow> a | Some x \<Rightarrow> b x)"
  by (cases v) simp_all

lemma extends_case_prod [ext_intros]:
  "(\<And>x y. extends (f x y)) \<Longrightarrow> extends (case p of (x, y) \<Rightarrow> f x y)"
  by (cases p) simp

lemma extends_attempt [ext_intros]: "extends (attempt env st ssid password attempts)"
  unfolding attempt_def by (intro ext_intros extends_modify allI) simp_all

lemma extends_attempt_loop [ext_intros]: "extends (attempt_loop env st ssid password attempts)"
  unfolding extends_def
proof
  fix w
  show "prefix (trace w) (trace (snd (attempt_loop env st ssid password attempts w)))"
  proof (induction env st ssid password attempts w rule: attempt_loop.induct)
    case (1 env st ssid password attempts w)
    obtain r w' where a: "attempt env st ssid password attempts w = (r, w')"
      by (cases "attempt env st ssid password attempts w")
    have p: "prefix (trace w) (trace w')"
      using extends_attempt [of env st ssid password attempts] a
      by (auto simp: extends_def dest: spec [of _ w])
    show ?case
    proof (cases "attempts < 3")
      case False
      then show ?thesis by (subst attempt_loop.simps) simp
    next
      case True
      show ?thesis
      proof (cases r)
        case (Inl e)
        with True a p show ?thesis by (subst attempt_loop.simps) simp
      next
        case (Inr b)
        show ?thesis
        proof (cases b)
          case True
          with \<open>attempts < 3\<close> Inr a p show ?thesis by (subst attempt_loop.simps) simp
        next
          case False
          from False have bf: "b = False" by simp
          from "1.IH" [OF \<open>attempts < 3\<close> a [symmetric] Inr bf]
          have "prefix (trace w') (trace (snd (attempt_loop env st ssid password (attempts + 1) w')))" .
          with p have "prefix (trace w) (trace (snd (attempt_loop env st ssid password (attempts + 1) w')))"
            by auto
          with \<open>attempts < 3\<close> Inr a False show ?thesis by (subst attempt_loop.simps) simp
        qed
      qed
    qed
  qed
qed

lemma extends_load_config [ext_intros]: "extends (load_config env st)"
  unfolding load_config_def by (intro ext_intros extends_modify allI)

lemma extends_save_config [ext_intros]: "extends (save_config env st ssid password)"
  unfolding save_config_def by (intro ext_intros extends_modify allI) (auto intro: ext_intros)

lemma extends_start_ap [ext_intros]: "extends (start_ap env st)"
  unfolding start_ap_def
  by (intro ext_intros extends_modify allI) (auto intro!: ext_intros extends_modify)

lemma extends_stop_ap [ext_intros]: "extends (stop_ap env)"
  unfolding stop_ap_def
  by (intro ext_intros extends_modify allI) (auto intro!: ext_intros extends_modify)

lemma extends_stop_captive_portal_server [ext_intros]: "extends (stop_captive_portal_server env)"
  unfolding stop_captive_portal_server_def
  by (intro ext_intros extends_modify allI) (auto intro!: ext_intros extends_modify)

lemma extends_stop_dns [ext_intros]: "extends (stop_dns env)"
  unfolding stop_dns_def
  by (intro ext_intros extends_modify allI) (auto intro!: ext_intros extends_modify extends_ext)

lemma extends_disconnect_from_wifi [ext_intros]: "extends (disconnect_from_wifi env)"
  unfolding disconnect_from_wifi_def
  by (intro ext_intros extends_modify allI) (auto intro!: ext_intros extends_modify)

lemma extends_stop_fallback [ext_intros]: "extends (stop_fallback env)"
  unfolding stop_fallback_def
  by (intro ext_intros extends_modify allI) (auto intro!: ext_intros extends_modify)

lemma extends_scan_networks [ext_intros]: "extends (scan_networks env st)"
  unfolding scan_networks_def
  by (intro ext_intros extends_modify allI)

lemma extends_connect_to_wifi [ext_intros]: "extends (connect_to_wifi env st request)"
  unfolding connect_to_wifi_def Let_def
  by (intro ext_intros extends_modify allI) (auto intro!: ext_intros extends_modify)

lemma extends_reconnect_to_wifi [ext_intros]: "extends (reconnect_to_wifi env st request)"
  unfolding reconnect_to_wifi_def
  by (intro ext_intros extends_modify allI)

lemma extends_serve_index [ext_intros]: "extends (serve_index env st)"
  unfolding serve_index_def
  by (intro ext_intros extends_modify allI)

lemma extends_call1 [ext_intros]: "(\<And>a. extends (f a)) \<Longrightarrow> extends (call1 f args)"
  by (auto simp: call1_def intro: ext_intros split: list.splits)

lemma extends_route [ext_intros]: "extends (route env st request)"
  unfolding route_def
  by (intro ext_intros extends_modify allI)

lemma try_except_total:
  "(\<And>e w. fst (h e w) = Inr ()) \<Longrightarrow> fst (try_except m h w) = Inr ()"
  by (cases "m w") (auto simp: try_except_def split: sum.splits)

text \<open>
  What \<^verbatim>\<open>handle_request\<close> comes to: the \<^verbatim>\<open>try\<close> with its \<^verbatim>\<open>except\<close> clause ends without
  an exception in a world \<open>w1\<close> that has more calls than \<open>w\<close>, and the \<^verbatim>\<open>finally\<close> block
  runs from there.
\<close>

lemma handle_request_eval:
  "\<exists>w1 t. trace w1 = trace w @ t \<and>
     handle_request env st raw w =
       (case raises env (trace w1) WriterClose of
          Some e \<Rightarrow> (Inl e, w1\<lparr>trace := trace w1 @ [WriterClose]\<rparr>)
        | None \<Rightarrow>
            (case raises env (trace w1 @ [WriterClose]) WriterWaitClosed of
               Some e \<Rightarrow> (Inl e, w1\<lparr>trace := trace w1 @ [WriterClose, WriterWaitClosed]\<rparr>)
             | None \<Rightarrow> (Inr (), w1\<lparr>trace := trace w1 @ [WriterClose, WriterWaitClosed]\<rparr>)))"
proof -
  let ?body = "try_except
          (bnd (reader_read env 1024 raw) (\<lambda>data.
           bnd (decode env data) (\<lambda>request.
           thn (print (''Request: '' @ request))
          (bnd (route env st request) (\<lambda>response.
           thn (writer_write env (encode response))
               (writer_drain env))))))
          (\<lambda>e. print (''Error handling request: '' @ msg e))"
  obtain r w1 where b: "?body w = (r, w1)" by (cases "?body w")
  have "fst (?body w) = Inr ()"
    by (rule try_except_total) (simp add: print_def modify_def)
  with b have r: "r = Inr ()" by simp
  have "extends ?body"
    by (intro ext_intros extends_modify allI)
  with b have "prefix (trace w) (trace w1)" by (auto simp: extends_def dest: spec [of _ w])
  then obtain t where t: "trace w1 = trace w @ t" by (auto simp: prefix_def)
  have "handle_request env st raw w =
       (case raises env (trace w1) WriterClose of
          Some e \<Rightarrow> (Inl e, w1\<lparr>trace := trace w1 @ [WriterClose]\<rparr>)
        | None \<Rightarrow>
            (case raises env (trace w1 @ [WriterClose]) WriterWaitClosed of
               Some e \<Rightarrow> (Inl e, w1\<lparr>trace := trace w1 @ [WriterClose, WriterWaitClosed]\<rparr>)
             | None \<Rightarrow> (Inr (), w1\<lparr>trace := trace w1 @ [WriterClose, WriterWaitClosed]\<rparr>)))"
    using b r
    by (simp add: handle_request_def try_finally_def thn_def bnd_def writer_close_def
          writer_wait_closed_def ext_def Let_def split: option.splits)
  with t show ?thesis by blast
qed

lemma handle_request_wait_closed_raises:
  assumes "\<And>t. raises env t WriterClose = None" and "\<And>t. raises env t WriterWaitClosed = Some e"
  shows "fst (handle_request env st raw w) = Inl e"
  using handle_request_eval [of w env st raw] assms by auto

text \<open>
  Claim C8, as amended. On every path \<^verbatim>\<open>handle_request\<close> calls \<^verbatim>\<open>writer.close()\<close> after its
  other calls: its last call is \<^verbatim>\<open>writer.close()\<close>, or \<^verbatim>\<open>writer.wait_closed()\<close> right after
  it. When neither of the two raises, \<^verbatim>\<open>handle_request\<close> returns without an exception
  after both, whatever raised while the request was read, decoded, dispatched or answered.
  An exception that does reach the caller was raised by \<^verbatim>\<open>writer.close()\<close> or by
  \<^verbatim>\<open>writer.wait_closed()\<close>.
\<close>

theorem handle_request_closes_writer:
  "(\<exists>t. trace (snd (handle_request env st raw w)) = trace w @ t @ [WriterClose] \<or>
        trace (snd (handle_request env st raw w)) = trace w @ t @ [WriterClose, WriterWaitClosed]) \<and>
   ((\<forall>t. raises env t WriterClose = None) \<and> (\<forall>t. raises env t WriterWaitClosed = None) \<longrightarrow>
      fst (handle_request env st raw w) = Inr () \<and>
      (\<exists>t. trace (snd (handle_request env st raw w)) =
             trace w @ t @ [WriterClose, WriterWaitClosed])) \<and>
   (\<forall>e. fst (handle_request env st raw w) = Inl e \<longrightarrow>
      (\<exists>t. raises env t WriterClose = Some e \<or> raises env t WriterWaitClosed = Some e))"
proof -
  from handle_request_eval [of w env st raw] obtain w1 t where
    t: "trace w1 = trace w @ t" and
    h: "handle_request env st raw w =
       (case raises env (trace w1) WriterClose of
          Some e \<Rightarrow> (Inl e, w1\<lparr>trace := trace w1 @ [WriterClose]\<rparr>)
        | None \<Rightarrow>
            (case raises env (trace w1 @ [WriterClose]) WriterWaitClosed of
               Some e \<Rightarrow> (Inl e, w1\<lparr>trace := trace w1 @ [WriterClose, WriterWaitClosed]\<rparr>)
             | None \<Rightarrow> (Inr (), w1\<lparr>trace := trace w1 @ [WriterClose, WriterWaitClosed]\<rparr>)))"
    by blast
  have a: "\<exists>t. trace (snd (handle_request env st raw w)) = trace w @ t @ [WriterClose] \<or>
        trace (snd (handle_request env st raw w)) = trace w @ t @ [WriterClose, WriterWaitClosed]"
    unfolding h using t by (intro exI [of _ t]) (simp split: option.splits)
  have b: "(\<forall>t. raises env t WriterClose = None) \<and> (\<forall>t. raises env t WriterWaitClosed = None) \<longrightarrow>
      fst (handle_request env st raw w) = Inr () \<and>
      (\<exists>t. trace (snd (handle_request env st raw w)) =
             trace w @ t @ [WriterClose, WriterWaitClosed])"
    unfolding h using t by (auto split: option.splits)
  have c: "\<forall>e. fst (handle_request env st raw w) = Inl e \<longrightarrow>
      (\<exists>t. raises env t WriterClose = Some e \<or> raises env t WriterWaitClosed = Some e)"
    unfolding h by (auto split: option.splits)
  from a b c show ?thesis by blast
qed

text \<open>
  A probe request on a device where nothing raises, and on one where waiting for the
  stream to close raises.
\<close>

theorem handle_request_closes_writer_witness:
  "(\<forall>t. raises calm t WriterClose = None) \<and> (\<forall>t. raises calm t WriterWaitClosed = None) \<and>
   fst (handle_request calm default_settings (encode probe_request) boot) = Inr () \<and>
   fst (handle_request wait_closed_fails default_settings (encode probe_request) boot)
     = Inl (OSError 104 ''ECONNRESET'') \<and>
   raises wait_closed_fails [] WriterWaitClosed = Some (OSError 104 ''ECONNRESET'')"
proof -
  have a: "\<forall>t. raises calm t WriterClose = None" "\<forall>t. raises calm t WriterWaitClosed = None"
    by (simp_all add: calm_def)
  with handle_request_closes_writer [of calm default_settings "encode probe_request" boot]
  have b: "fst (handle_request calm default_settings (encode probe_request) boot) = Inr ()"
    by blast
  have c: "fst (handle_request wait_closed_fails default_settings (encode probe_request) boot)
     = Inl (OSError 104 ''ECONNRESET'')"
    by (rule handle_request_wait_closed_raises) (simp_all add: wait_closed_fails_def calm_def)
  have d: "raises wait_closed_fails [] WriterWaitClosed = Some (OSError 104 ''ECONNRESET'')"
    by (simp add: wait_closed_fails_def calm_def)
  from a b c d show ?thesis by blast
qed

text \<open>
  Claim C8 as stated fails: when \<^verbatim>\<open>writer.wait_closed()\<close> raises, the exception leaves
  \<^verbatim>\<open>handle_request\<close>.
\<close>

theorem handle_request_raises_counterexample:
  "fst (handle_request wait_closed_fails default_settings (encode probe_request) boot)
     = Inl (OSError 104 ''ECONNRESET'')"
  by (rule handle_request_wait_closed_raises) (simp_all add: wait_closed_fails_def calm_def)

section \<open>Properties of the shutdown\<close>














lemma sorted_stage_append:
  assumes "sorted (map stage t1)" and "sorted (map stage t2)"
    and "\<forall>c \<in> set t1. stage c \<le> k" and "\<forall>c \<in> set t2. k \<le> stage c"
  shows "sorted (map stage (t1 @ t2))"
  using assms by (auto simp: sorted_append intro: order_trans)

lemma ordered_bnd:
  assumes m: "ordered lo k m" and f: "\<And>x. ordered k hi (f x)" and "lo \<le> k" and "k \<le> hi"
  shows "ordered lo hi (bnd m f)"
  unfolding ordered_def
proof
  fix w
  obtain r w1 where mw: "m w = (r, w1)" by (cases "m w")
  from m mw obtain t1 where t1: "trace w1 = trace w @ t1" "sorted (map stage t1)"
    "\<forall>c \<in> set t1. lo \<le> stage c \<and> stage c \<le> k"
    by (auto simp: ordered_def dest: spec [of _ w])
  show "\<exists>t. trace (snd (bnd m f w)) = trace w @ t \<and> sorted (map stage t) \<and>
            (\<forall>c \<in> set t. lo \<le> stage c \<and> stage c \<le> hi)"
  proof (cases r)
    case (Inl e)
    with mw have "snd (bnd m f w) = w1" by (simp add: bnd_def)
    with t1 \<open>k \<le> hi\<close> show ?thesis by (intro exI [of _ t1]) auto
  next
    case (Inr x)
    with mw have s: "snd (bnd m f w) = snd (f x w1)" by (simp add: bnd_def)
    from f [of x] obtain t2 where t2: "trace (snd (f x w1)) = trace w1 @ t2"
      "sorted (map stage t2)" "\<forall>c \<in> set t2. k \<le> stage c \<and> stage c \<le> hi"
      by (auto simp: ordered_def dest: spec [of _ w1])
    have "sorted (map stage (t1 @ t2))"
      using t1(2) t2(2) t1(3) t2(3) by (intro sorted_stage_append [where k = k]) auto
    moreover have "\<forall>c \<in> set (t1 @ t2). lo \<le> stage c \<and> stage c \<le> hi"
      using t1(3) t2(3) \<open>lo \<le> k\<close> \<open>k \<le> hi\<close> by (auto intro: order_trans)
    ultimately show ?thesis using s t1(1) t2(1) by (intro exI [of _ "t1 @ t2"]) simp
  qed
qed

lemma ordered_thn:
  "ordered lo k m \<Longrightarrow> ordered k hi n \<Longrightarrow> lo \<le> k \<Longrightarrow> k \<le> hi \<Longrightarrow> ordered lo hi (thn m n)"
  by (simp add: thn_def ordered_bnd)

lemma ordered_try_except:
  assumes m: "ordered lo k m" and h: "\<And>e. ordered k hi (h e)" and "lo \<le> k" and "k \<le> hi"
  shows "ordered lo hi (try_except m h)"
  unfolding ordered_def
proof
  fix w
  obtain r w1 where mw: "m w = (r, w1)" by (cases "m w")
  from m mw obtain t1 where t1: "trace w1 = trace w @ t1" "sorted (map stage t1)"
    "\<forall>c \<in> set t1. lo \<le> stage c \<and> stage c \<le> k"
    by (auto simp: ordered_def dest: spec [of _ w])
  show "\<exists>t. trace (snd (try_except m h w)) = trace w @ t \<and> sorted (map stage t) \<and>
            (\<forall>c \<in> set t. lo \<le> stage c \<and> stage c \<le> hi)"
  proof (cases r)
    case (Inr x)
    with mw have "snd (try_except m h w) = w1" by (simp add: try_except_def)
    with t1 \<open>k \<le> hi\<close> show ?thesis by (intro exI [of _ t1]) auto
  next
    case (Inl e)
    with mw have s: "snd (try_except m h w) = snd (h e w1)" by (simp add: try_except_def)
    from h [of e] obtain t2 where t2: "trace (snd (h e w1)) = trace w1 @ t2"
      "sorted (map stage t2)" "\<forall>c \<in> set t2. k \<le> stage c \<and> stage c \<le> hi"
      by (auto simp: ordered_def dest: spec [of _ w1])
    have "sorted (map stage (t1 @ t2))"
      using t1(2) t2(2) t1(3) t2(3) by (intro sorted_stage_append [where k = k]) auto
    moreover have "\<forall>c \<in> set (t1 @ t2). lo \<le> stage c \<and> stage c \<le> hi"
      using t1(3) t2(3) \<open>lo \<le> k\<close> \<open>k \<le> hi\<close> by (auto intro: order_trans)
    ultimately show ?thesis using s t1(1) t2(1) by (intro exI [of _ "t1 @ t2"]) simp
  qed
qed

named_theorems same_stage

lemma ordered_bnd_same [same_stage]:
  "ordered k k m \<Longrightarrow> (\<And>x. ordered k k (f x)) \<Longrightarrow> ordered k k (bnd m f)"
  by (rule ordered_bnd [where k = k]) simp_all

lemma ordered_thn_same [same_stage]:
  "ordered k k m \<Longrightarrow> ordered k k n \<Longrightarrow> ordered k k (thn m n)"
  by (rule ordered_thn [where k = k]) simp_all

lemma ordered_try_except_same [same_stage]:
  "ordered k k m \<Longrightarrow> (\<And>e. ordered k k (h e)) \<Longrightarrow> ordered k k (try_except m h)"
  by (rule ordered_try_except [where k = k]) simp_all


lemma ordered_if [same_stage]:
  "ordered lo hi a \<Longrightarrow> ordered lo hi b \<Longrightarrow> ordered lo hi (if c then a else b)"
  by simp

lemma ordered_case_option [same_stage]:
  "ordered lo hi a \<Longrightarrow> (\<And>x. ordered lo hi (b x)) \<Longrightarrow>
     ordered lo hi (case v of None \<Rightarrow> a | Some x \<Rightarrow> b x)"
  by (cases v) simp_all














section \<open>Properties of the run loop\<close>

text \<open>
  The device of the example: a configuration for the network \<^verbatim>\<open>home\<close> is saved, no call
  raises, and the station's link never comes up. The manager is built with the default
  arguments.
\<close>

lemma saved_fields:
  "raises saved t c = None"
  "listing saved t = [''network_config.conf'']"
  "entry saved t section key = (if key = ''ssid'' then Some ''home'' else Some ''secret'')"
  "link_at saved k = False"
  "lease saved t = ''192.168.1.50''"
  by (simp_all add: saved_def calm_def)

lemma default_fields:
  "config_directory default_settings = ''/config''"
  "config_file default_settings = ''network_config.conf''"
  "VERSION default_settings = ''1.0.1''"
  "ap_ssid default_settings = ''Goat - Captive Portal''"
  "ap_password default_settings = ''password''"
  "captive_portal_http_port default_settings = 80"
  "network_connection_timeout default_settings = 10"
  "ap_ip_address default_settings = ''192.168.4.1''"
  "ap_subnet default_settings = ''255.255.255.0''"
  "ap_gateway default_settings = ''192.168.4.1''"
  "ap_dns default_settings = ''192.168.4.1''"
  "hostname default_settings = ''PicoW''"
  "sta_web_server default_settings = False"
  by (simp_all add: default_settings_def init_def)

lemma serve_forever_eq: "serve_forever env n w = (None, ((sleep env 10) ^^ n) w)"
  by (induction n arbitrary: w) (simp_all add: funpow_swap1)

lemma sleeps_frame:
  "trace ((sleep env d ^^ n) w) = trace w"
  "udp_server ((sleep env d ^^ n) w) = udp_server w"
  "server ((sleep env d ^^ n) w) = server w"
  "ip_address ((sleep env d ^^ n) w) = ip_address w"
  "ap_active ((sleep env d ^^ n) w) = ap_active w"
  "sta_active ((sleep env d ^^ n) w) = sta_active w"
  by (induction n) (simp_all add: sleep_def)

lemma unlinked_sleep:
  "(\<forall>k. \<not> link_at env k) \<Longrightarrow> \<not> sta_connected w \<Longrightarrow> sleep env d w = w\<lparr>now := now w + d\<rparr>"
  by (simp add: sleep_def)

lemma poll_arith:
  assumes "(n :: nat) < 10 * t"
  shows "n + 5 + 5 * ((10 * t - (n + 5) + 4) div 5) = n + 5 * ((10 * t - n + 4) div 5)"
proof (cases "n + 5 \<le> 10 * t")
  case True
  define y where "y = 10 * t - (n + 5)"
  with True have "10 * t - n + 4 = (y + 4) + 5" by simp
  then have e: "(10 * t - n + 4) div 5 = Suc ((y + 4) div 5)" by simp
  show ?thesis unfolding e unfolding y_def [symmetric] by simp
next
  case False
  then have z: "10 * t - (n + 5) = 0" by simp
  from False assms have "5 * 1 \<le> 10 * t - n + 4" and "10 * t - n + 4 < 5 * Suc 1" by simp_all
  then have "(10 * t - n + 4) div 5 = 1" by (rule div_nat_eqI)
  then show ?thesis unfolding z by simp
qed

lemma poll_unlinked:
  "(\<forall>k. \<not> link_at env k) \<Longrightarrow> \<not> sta_connected w \<Longrightarrow>
     poll env timeout w = w\<lparr>now := now w + 5 * ((10 * timeout - now w + 4) div 5)\<rparr>"
proof (induction env timeout w rule: poll.induct)
  case (1 env timeout w)
  show ?case
  proof (cases "utime_time w < timeout")
    case False
    then have "10 * timeout - now w = 0" by (simp add: utime_time_def)
    moreover from False "1.prems" have "poll env timeout w = w" by (subst poll.simps) simp
    ultimately show ?thesis by simp
  next
    case True
    then have lt: "now w < 10 * timeout" by (simp add: utime_time_def)
    from "1.prems" have sl: "sleep env 5 w = w\<lparr>now := now w + 5\<rparr>"
      by (intro unlinked_sleep) simp_all
    from True "1.prems" have c: "\<not> sta_connected w \<and> utime_time w < timeout" by simp
    from "1.prems" sl have "\<not> sta_connected (sleep env 5 w)" by simp
    from "1.IH" [OF c "1.prems"(1) this]
    have "poll env timeout (sleep env 5 w) =
        (sleep env 5 w)\<lparr>now := now (sleep env 5 w) +
                              5 * ((10 * timeout - now (sleep env 5 w) + 4) div 5)\<rparr>" .
    then have "poll env timeout (sleep env 5 w) =
        w\<lparr>now := now w + 5 + 5 * ((10 * timeout - (now w + 5) + 4) div 5)\<rparr>"
      by (simp add: sl)
    then have "poll env timeout (sleep env 5 w) =
        w\<lparr>now := now w + 5 * ((10 * timeout - now w + 4) div 5)\<rparr>"
      by (simp only: poll_arith [OF lt])
    moreover from c have "poll env timeout w = poll env timeout (sleep env 5 w)"
      by (subst poll.simps) simp
    ultimately show ?thesis by simp
  qed
qed

lemma poll_saved:
  "\<not> sta_connected w \<Longrightarrow>
     poll saved timeout w = w\<lparr>now := now w + 5 * ((10 * timeout - now w + 4) div 5)\<rparr>"
  by (rule poll_unlinked) (simp_all add: saved_fields)

lemma step:
  "ret x w = (Inr x, w)"
  "raise e w = (Inl e, w)"
  "bnd m f w = (case m w of (Inl e, w') \<Rightarrow> (Inl e, w') | (Inr x, w') \<Rightarrow> f x w')"
  "thn m' n w = (case m' w of (Inl e, w') \<Rightarrow> (Inl e, w') | (Inr u, w') \<Rightarrow> n w')"
  "cond b m' w = (if b then m' w else (Inr (), w))"
  "try_except m h w = (case m w of (Inl e, w') \<Rightarrow> h e w' | (Inr x, w') \<Rightarrow> (Inr x, w'))"
  "get g w = (Inr (g w), w)"
  "modify k w = (Inr (), k w)"
  "print s w = (Inr (), w\<lparr>console := console w @ [s]\<rparr>)"
  "ext env c val eff w =
     (case raises env (trace w) c of
        Some e \<Rightarrow> (Inl e, w\<lparr>trace := trace w @ [c]\<rparr>)
      | None \<Rightarrow> (Inr (val (trace w)), eff (w\<lparr>trace := trace w @ [c]\<rparr>)))"
  by (simp_all add: ret_def raise_def bnd_def thn_def cond_def try_except_def get_def
        modify_def print_def ext_def Let_def split: sum.splits prod.splits)

lemma tstep:
  "lift m' w = (case m' w of (r, w') \<Rightarrow> (Some r, w'))"
  "tthen a b w = (case a w of (Some (Inr u), w') \<Rightarrow> b w' | (r, w') \<Rightarrow> (r, w'))"
  "task_except a h w = (case a w of (Some (Inl e), w') \<Rightarrow> lift (h e) w' | (r, w') \<Rightarrow> (r, w'))"
  "task_finally a fin w =
     (case a w of
        (None, w') \<Rightarrow> (None, w')
      | (Some r, w') \<Rightarrow>
          (case fin w' of (Inl e, w'') \<Rightarrow> (Some (Inl e), w'') | (Inr u, w'') \<Rightarrow> (Some r, w'')))"
  by (simp_all add: lift_def tthen_def task_except_def task_finally_def)

lemma attempt_saved:
  assumes "\<not> sta_connected w"
  shows "\<exists>w'. attempt saved default_settings ''home'' (Some ''secret'') k w = (Inr False, w') \<and>
       trace w' = trace w @ [StaActive True, StaConnect ''home'' (Some ''secret'')] \<and>
       \<not> sta_connected w' \<and> ip_address w' = ip_address w \<and>
       server w' = server w \<and> udp_server w' = udp_server w \<and>
       ap_active w' = ap_active w \<and> ap_connected w' = ap_connected w"
  using assms
  by (simp add: attempt_def step saved_fields default_fields
        sta_set_active_def sta_connect_def wait_for_link_def poll_saved
        cong: prod.case_cong_weak sum.case_cong_weak option.case_cong_weak)

lemma attempt_loop_again:
  "attempts < 3 \<Longrightarrow> attempt env st ssid password attempts w = (Inr False, w') \<Longrightarrow>
     attempt_loop env st ssid password attempts w =
       attempt_loop env st ssid password (attempts + 1) w'"
  by (subst attempt_loop.simps) simp

lemma attempt_loop_done:
  "\<not> attempts < 3 \<Longrightarrow> attempt_loop env st ssid password attempts w = (Inr (), w)"
  by (subst attempt_loop.simps) simp

lemma attempt_loop_saved:
  assumes "\<not> sta_connected w"
  shows "\<exists>w'. attempt_loop saved default_settings ''home'' (Some ''secret'') 0 w = (Inr (), w') \<and>
       trace w' = trace w @
         [StaActive True, StaConnect ''home'' (Some ''secret''),
          StaActive True, StaConnect ''home'' (Some ''secret''),
          StaActive True, StaConnect ''home'' (Some ''secret'')] \<and>
       \<not> sta_connected w' \<and> ip_address w' = ip_address w \<and>
       server w' = server w \<and> udp_server w' = udp_server w \<and>
       ap_active w' = ap_active w \<and> ap_connected w' = ap_connected w"
proof -
  let ?loop = "attempt_loop saved default_settings ''home'' (Some ''secret'')"
  let ?att = "attempt saved default_settings ''home'' (Some ''secret'')"
  from attempt_saved [OF assms, of 0] obtain w1 where
    a1: "?att 0 w = (Inr False, w1)" and
    f1: "trace w1 = trace w @ [StaActive True, StaConnect ''home'' (Some ''secret'')]"
      "\<not> sta_connected w1" "ip_address w1 = ip_address w" "server w1 = server w"
      "udp_server w1 = udp_server w" "ap_active w1 = ap_active w"
      "ap_connected w1 = ap_connected w"
    by blast
  from attempt_saved [OF f1(2), of "0 + 1"] obtain w2 where
    a2: "?att (0 + 1) w1 = (Inr False, w2)" and
    f2: "trace w2 = trace w1 @ [StaActive True, StaConnect ''home'' (Some ''secret'')]"
      "\<not> sta_connected w2" "ip_address w2 = ip_address w1" "server w2 = server w1"
      "udp_server w2 = udp_server w1" "ap_active w2 = ap_active w1"
      "ap_connected w2 = ap_connected w1"
    by blast
  from attempt_saved [OF f2(2), of "0 + 1 + 1"] obtain w3 where
    a3: "?att (0 + 1 + 1) w2 = (Inr False, w3)" and
    f3: "trace w3 = trace w2 @ [StaActive True, StaConnect ''home'' (Some ''secret'')]"
      "\<not> sta_connected w3" "ip_address w3 = ip_address w2" "server w3 = server w2"
      "udp_server w3 = udp_server w2" "ap_active w3 = ap_active w2"
      "ap_connected w3 = ap_connected w2"
    by blast
  have "?loop 0 w = ?loop (0 + 1) w1"
    using _ a1 by (rule attempt_loop_again) simp
  also have "\<dots> = ?loop (0 + 1 + 1) w2"
    using _ a2 by (rule attempt_loop_again) simp
  also have "\<dots> = ?loop (0 + 1 + 1 + 1) w3"
    using _ a3 by (rule attempt_loop_again) simp
  also have "\<dots> = (Inr (), w3)"
    by (rule attempt_loop_done) simp
  finally have l0: "?loop 0 w = (Inr (), w3)" .
  show ?thesis
    by (rule exI [of _ w3]) (simp add: l0 f1 f2 f3)
qed

lemma load_config_saved:
  assumes "\<not> sta_connected w"
  shows "\<exists>w'. load_config saved default_settings w = (Inr (), w') \<and>
       trace w' = trace w @
         [Listdir ''/config'', ConfigOpen ''/config'' ''network_config.conf'', ConfigRead,
          ConfigGet ''network'' ''ssid'', ConfigGet ''network'' ''password'',
          StaActive True, StaConnect ''home'' (Some ''secret''),
          StaActive True, StaConnect ''home'' (Some ''secret''),
          StaActive True, StaConnect ''home'' (Some ''secret''),
          StaActive False] \<and>
       \<not> sta_connected w' \<and> \<not> sta_active w' \<and> ip_address w' = ip_address w \<and>
       server w' = server w \<and> udp_server w' = udp_server w \<and>
       ap_active w' = ap_active w \<and> ap_connected w' = ap_connected w"
proof -
  define w0 where "w0 = w\<lparr>trace := trace w @
         [Listdir ''/config'', ConfigOpen ''/config'' ''network_config.conf'', ConfigRead,
          ConfigGet ''network'' ''ssid'', ConfigGet ''network'' ''password'']\<rparr>"
  from assms have "\<not> sta_connected w0" by (simp add: w0_def)
  from attempt_loop_saved [OF this] obtain w3 where
    l: "attempt_loop saved default_settings ''home'' (Some ''secret'') 0 w0 = (Inr (), w3)" and
    f: "trace w3 = trace w0 @
         [StaActive True, StaConnect ''home'' (Some ''secret''),
          StaActive True, StaConnect ''home'' (Some ''secret''),
          StaActive True, StaConnect ''home'' (Some ''secret'')]"
      "\<not> sta_connected w3" "ip_address w3 = ip_address w0" "server w3 = server w0"
      "udp_server w3 = udp_server w0" "ap_active w3 = ap_active w0"
      "ap_connected w3 = ap_connected w0"
    by blast
  have "load_config saved default_settings w =
      try_except
        (thn (attempt_loop saved default_settings ''home'' (Some ''secret'') 0)
             (bnd (get sta_connected) (\<lambda>connected.
                cond (\<not> connected)
                  (thn (sta_set_active saved False)
                       (print ''All connection attempts failed.'')))))
        (\<lambda>e. thn (sta_set_active saved False)
                 (print (''Error loading network configuration: '' @ msg e))) w0"
    unfolding w0_def
    by (simp add: load_config_def step listdir_def config_open_def config_read_def config_get_def
          saved_fields default_fields
          cong: prod.case_cong_weak sum.case_cong_weak option.case_cong_weak)
  also have "\<dots> = (Inr (), w3\<lparr>trace := trace w3 @ [StaActive False], sta_active := False,
        sta_connected := False, sta_target := None,
        console := console w3 @ [''All connection attempts failed.'']\<rparr>)"
    by (simp add: step l f(2) sta_set_active_def saved_fields)
  finally show ?thesis
    by (simp add: f w0_def)
qed

lemma start_ap_saved:
  "\<exists>w'. start_ap saved default_settings w = (Inr (), w') \<and>
       trace w' = trace w @
         [ApConfig ''Goat - Captive Portal'' ''password'', ApActive True,
          ApIfconfigSet ''192.168.4.1'' ''255.255.255.0'' ''192.168.4.1'' ''192.168.4.1'',
          ApIfconfig] \<and>
       ip_address w' = Some ''192.168.4.1'' \<and> ap_active w' \<and> ap_connected w' \<and>
       sta_connected w' = sta_connected w \<and> sta_active w' = sta_active w \<and>
       server w' = server w \<and> udp_server w' = udp_server w"
  by (simp add: start_ap_def step ap_config_def ap_set_active_def ap_ifconfig_set_def
        ap_ifconfig_def saved_fields default_fields
        cong: prod.case_cong_weak sum.case_cong_weak option.case_cong_weak)

lemma listener_blocks:
  assumes "ip_address w = Some ''192.168.4.1''"
  shows "\<exists>w'. start_captive_portal_server saved default_settings n w = (None, w') \<and>
       trace w' = trace w @ [StartServer ''192.168.4.1'' 80] \<and>
       server w' = Some PortalServer \<and> udp_server w' = udp_server w \<and>
       ap_active w' = ap_active w \<and> sta_active w' = sta_active w"
  using assms
  by (simp add: start_captive_portal_server_def step tstep start_server_def saved_fields
        default_fields serve_forever_eq sleeps_frame
        cong: prod.case_cong_weak sum.case_cong_weak option.case_cong_weak)

lemma tthen_running: "a w = (None, w') \<Longrightarrow> tthen a b w = (None, w')"
  by (simp add: tthen_def)

lemma tthen_returned: "a w = (Some (Inr ()), w') \<Longrightarrow> tthen a b w = b w'"
  by (simp add: tthen_def)

lemma lift_returned: "m w = (r, w') \<Longrightarrow> lift m w = (Some r, w')"
  by (simp add: lift_def)

lemma task_except_running: "a w = (None, w') \<Longrightarrow> task_except a h w = (None, w')"
  by (simp add: task_except_def)

lemma task_finally_running: "a w = (None, w') \<Longrightarrow> task_finally a fin w = (None, w')"
  by (simp add: task_finally_def)

lemma fallback_saved:
  "\<exists>w'. fallback saved default_settings n w = (None, w') \<and>
       trace w' = trace w @
         [ApConfig ''Goat - Captive Portal'' ''password'', ApActive True,
          ApIfconfigSet ''192.168.4.1'' ''255.255.255.0'' ''192.168.4.1'' ''192.168.4.1'',
          ApIfconfig, StartServer ''192.168.4.1'' 80] \<and>
       server w' = Some PortalServer \<and> udp_server w' = udp_server w \<and>
       ap_active w' \<and> sta_active w' = sta_active w"
proof -
  let ?w = "w\<lparr>console := console w @ [''Switching to AP mode...'']\<rparr>"
  from start_ap_saved [of ?w] obtain w1 where
    s: "start_ap saved default_settings ?w = (Inr (), w1)" and
    f: "trace w1 = trace ?w @
         [ApConfig ''Goat - Captive Portal'' ''password'', ApActive True,
          ApIfconfigSet ''192.168.4.1'' ''255.255.255.0'' ''192.168.4.1'' ''192.168.4.1'',
          ApIfconfig]"
      "ip_address w1 = Some ''192.168.4.1''" "ap_active w1"
      "sta_active w1 = sta_active ?w" "udp_server w1 = udp_server ?w"
    by blast
  from listener_blocks [OF f(2), of n] obtain w2 where
    b: "start_captive_portal_server saved default_settings n w1 = (None, w2)" and
    g: "trace w2 = trace w1 @ [StartServer ''192.168.4.1'' 80]"
      "server w2 = Some PortalServer" "udp_server w2 = udp_server w1"
      "ap_active w2 = ap_active w1" "sta_active w2 = sta_active w1"
    by blast
  have "lift (thn (print ''Switching to AP mode...'') (start_ap saved default_settings)) w =
      (Some (Inr ()), w1)"
    by (rule lift_returned) (simp add: step s)
  then have "fallback saved default_settings n w =
      tthen (start_captive_portal_server saved default_settings n)
            (start_dns saved default_settings n) w1"
    unfolding fallback_def by (rule tthen_returned)
  also have "\<dots> = (None, w2)"
    using b by (rule tthen_running)
  finally show ?thesis
    by (simp add: f g)
qed

lemma run_blocks_in_listener:
  "\<exists>w'. run saved default_settings (Suc n) boot = (None, w') \<and>
       trace w' =
         [Hostname ''PicoW'',
          Listdir ''/config'', ConfigOpen ''/config'' ''network_config.conf'', ConfigRead,
          ConfigGet ''network'' ''ssid'', ConfigGet ''network'' ''password'',
          StaActive True, StaConnect ''home'' (Some ''secret''),
          StaActive True, StaConnect ''home'' (Some ''secret''),
          StaActive True, StaConnect ''home'' (Some ''secret''),
          StaActive False,
          Listdir ''/config'', ConfigOpen ''/config'' ''network_config.conf'', ConfigRead,
          ConfigGet ''network'' ''ssid'', ConfigGet ''network'' ''password'',
          StaActive True, StaConnect ''home'' (Some ''secret''),
          StaActive True, StaConnect ''home'' (Some ''secret''),
          StaActive True, StaConnect ''home'' (Some ''secret''),
          StaActive False,
          ApConfig ''Goat - Captive Portal'' ''password'', ApActive True,
          ApIfconfigSet ''192.168.4.1'' ''255.255.255.0'' ''192.168.4.1'' ''192.168.4.1'',
          ApIfconfig, StartServer ''192.168.4.1'' 80] \<and>
       server w' = Some PortalServer \<and> \<not> udp_server w' \<and> ap_active w' \<and> \<not> sta_active w'"
proof -
  let ?b = "boot\<lparr>console := console boot @ [''Goat - Network Manager Version 1.0.1''],
                  trace := trace boot @ [Hostname ''PicoW''], host := ''PicoW''\<rparr>"
  have "\<not> sta_connected ?b" by (simp add: boot_def)
  from load_config_saved [OF this] obtain w1 where
    l1: "load_config saved default_settings ?b = (Inr (), w1)" and
    f1: "trace w1 = trace ?b @
         [Listdir ''/config'', ConfigOpen ''/config'' ''network_config.conf'', ConfigRead,
          ConfigGet ''network'' ''ssid'', ConfigGet ''network'' ''password'',
          StaActive True, StaConnect ''home'' (Some ''secret''),
          StaActive True, StaConnect ''home'' (Some ''secret''),
          StaActive True, StaConnect ''home'' (Some ''secret''),
          StaActive False]"
      "\<not> sta_connected w1" "udp_server w1 = udp_server ?b"
    by blast
  let ?w1 = "w1\<lparr>console := console w1 @ [''Station disconnected, attempting reconnection...'']\<rparr>"
  from f1(2) have "\<not> sta_connected ?w1" by simp
  from load_config_saved [OF this] obtain w2 where
    l2: "load_config saved default_settings ?w1 = (Inr (), w2)" and
    f2: "trace w2 = trace ?w1 @
         [Listdir ''/config'', ConfigOpen ''/config'' ''network_config.conf'', ConfigRead,
          ConfigGet ''network'' ''ssid'', ConfigGet ''network'' ''password'',
          StaActive True, StaConnect ''home'' (Some ''secret''),
          StaActive True, StaConnect ''home'' (Some ''secret''),
          StaActive True, StaConnect ''home'' (Some ''secret''),
          StaActive False]"
      "\<not> sta_connected w2" "\<not> sta_active w2" "udp_server w2 = udp_server ?w1"
    by blast
  from fallback_saved [of n w2] obtain w3 where
    l3: "fallback saved default_settings n w2 = (None, w3)" and
    f3: "trace w3 = trace w2 @
         [ApConfig ''Goat - Captive Portal'' ''password'', ApActive True,
          ApIfconfigSet ''192.168.4.1'' ''255.255.255.0'' ''192.168.4.1'' ''192.168.4.1'',
          ApIfconfig, StartServer ''192.168.4.1'' 80]"
      "server w3 = Some PortalServer" "udp_server w3 = udp_server w2"
      "ap_active w3" "sta_active w3 = sta_active w2"
    by blast
  have init: "lift (seqs [print (''Goat - Network Manager Version '' @ VERSION default_settings),
                    set_hostname saved (hostname default_settings),
                    load_config saved default_settings]) boot = (Some (Inr ()), w1)"
    by (rule lift_returned)
       (simp add: step set_hostname_def saved_fields default_fields l1
          cong: prod.case_cong_weak sum.case_cong_weak option.case_cong_weak)
  have "lift (thn (print ''Station disconnected, attempting reconnection...'')
                  (load_config saved default_settings)) w1 = (Some (Inr ()), w2)"
    by (rule lift_returned) (simp add: step l2)
  then have "reconnect_step saved default_settings n w1 = (None, w3)"
    using f1(2) f2(2) l3 by (simp add: reconnect_step_def tthen_returned)
  then have "run_loop saved default_settings (Suc n) w1 = (None, w3)"
    by (simp add: tthen_running)
  with init have "tthen
      (lift (seqs [print (''Goat - Network Manager Version '' @ VERSION default_settings),
                   set_hostname saved (hostname default_settings),
                   load_config saved default_settings]))
      (run_loop saved default_settings (Suc n)) boot = (None, w3)"
    by (simp only: tthen_returned)
  then have "run saved default_settings (Suc n) boot = (None, w3)"
    unfolding run_def by (intro task_finally_running task_except_running)
  then show ?thesis
    by (simp add: f1 f2 f3 boot_def)
qed

text \<open>
  Claim C1 fails on the code. On that device \<^verbatim>\<open>run\<close> tries the saved network three times
  at start and three times again in the loop, deactivates the station, starts the access
  point and starts the HTTP listener. It is then held in the \<^verbatim>\<open>while True\<close> loop of
  \<^verbatim>\<open>start_captive_portal_server\<close>, which it awaits before \<^verbatim>\<open>start_dns\<close>: however long it
  runs, it has not returned, it has made no call for the DNS socket, and the DNS
  redirector holds no socket.
\<close>

theorem run_never_starts_dns:
  "fst (run saved default_settings (Suc n) boot) = None \<and>
   trace (snd (run saved default_settings (Suc n) boot)) =
     [Hostname ''PicoW'',
      Listdir ''/config'', ConfigOpen ''/config'' ''network_config.conf'', ConfigRead,
      ConfigGet ''network'' ''ssid'', ConfigGet ''network'' ''password'',
      StaActive True, StaConnect ''home'' (Some ''secret''),
      StaActive True, StaConnect ''home'' (Some ''secret''),
      StaActive True, StaConnect ''home'' (Some ''secret''),
      StaActive False,
      Listdir ''/config'', ConfigOpen ''/config'' ''network_config.conf'', ConfigRead,
      ConfigGet ''network'' ''ssid'', ConfigGet ''network'' ''password'',
      StaActive True, StaConnect ''home'' (Some ''secret''),
      StaActive True, StaConnect ''home'' (Some ''secret''),
      StaActive True, StaConnect ''home'' (Some ''secret''),
      StaActive False,
      ApConfig ''Goat - Captive Portal'' ''password'', ApActive True,
      ApIfconfigSet ''192.168.4.1'' ''255.255.255.0'' ''192.168.4.1'' ''192.168.4.1'',
      ApIfconfig, StartServer ''192.168.4.1'' 80] \<and>
   server (snd (run saved default_settings (Suc n) boot)) = Some PortalServer \<and>
   ap_active (snd (run saved default_settings (Suc n) boot)) \<and>
   \<not> sta_active (snd (run saved default_settings (Suc n) boot)) \<and>
   \<not> udp_server (snd (run saved default_settings (Suc n) boot))"
proof -
  from run_blocks_in_listener [of n] obtain w' where
    "run saved default_settings (Suc n) boot = (None, w')" and
    "trace w' =
     [Hostname ''PicoW'',
      Listdir ''/config'', ConfigOpen ''/config'' ''network_config.conf'', ConfigRead,
      ConfigGet ''network'' ''ssid'', ConfigGet ''network'' ''password'',
      StaActive True, StaConnect ''home'' (Some ''secret''),
      StaActive True, StaConnect ''home'' (Some ''secret''),
      StaActive True, StaConnect ''home'' (Some ''secret''),
      StaActive False,
      Listdir ''/config'', ConfigOpen ''/config'' ''network_config.conf'', ConfigRead,
      ConfigGet ''network'' ''ssid'', ConfigGet ''network'' ''password'',
      StaActive True, StaConnect ''home'' (Some ''secret''),
      StaActive True, StaConnect ''home'' (Some ''secret''),
      StaActive True, StaConnect ''home'' (Some ''secret''),
      StaActive False,
      ApConfig ''Goat - Captive Portal'' ''password'', ApActive True,
      ApIfconfigSet ''192.168.4.1'' ''255.255.255.0'' ''192.168.4.1'' ''192.168.4.1'',
      ApIfconfig, StartServer ''192.168.4.1'' 80]" and
    "server w' = Some PortalServer" "\<not> udp_server w'" "ap_active w'" "\<not> sta_active w'"
    by blast
  then show ?thesis by simp
qed

end
